theory Spec2Isabelle
  imports Complex_Main "HOL-Library.Word"
begin

unbundle bit_operations_syntax

section \<open>JavaScript numbers\<close>

text \<open>
  A JavaScript Number is an IEEE 754 binary64 value, kept here as its 64 bits: one sign
  bit, eleven bits of biased exponent, fifty-two bits of fraction. \<open>Tag.js\<close> multiplies a
  coordinate by 100 and concatenates the product with \<open>'%'\<close>, so the two operations of the
  language that are embedded are the product of two Numbers (exact product, rounded to the
  nearest Number, ties to the even significand) and the conversion of a Number to a String
  (the shortest decimal that reads back as the same Number, in the notation the language
  prescribes).
\<close>

type_synonym number = "64 word"

definition biased_exponent :: "number \<Rightarrow> int" where
  "biased_exponent w = uint (drop_bit 52 w AND 0x7FF)"

definition fraction :: "number \<Rightarrow> int" where
  "fraction w = uint (w AND 0xFFFFFFFFFFFFF)"

definition negative :: "number \<Rightarrow> bool" where
  "negative w = bit w 63"

definition is_NaN :: "number \<Rightarrow> bool" where
  "is_NaN w = (biased_exponent w = 2047 \<and> fraction w \<noteq> 0)"

definition is_finite :: "number \<Rightarrow> bool" where
  "is_finite w = (biased_exponent w \<noteq> 2047)"

text \<open>A finite Number is \<open>significand * 2 ^ exponent\<close>, negated when the sign bit is set.\<close>

definition significand :: "number \<Rightarrow> int" where
  "significand w = (if biased_exponent w = 0 then fraction w else 2 ^ 52 + fraction w)"

definition exponent :: "number \<Rightarrow> int" where
  "exponent w = (if biased_exponent w = 0 then - 1074 else biased_exponent w - 1075)"

definition NaN :: number where
  "NaN = 0x7FF8000000000000"

definition Infinity :: number where
  "Infinity = 0x7FF0000000000000"

definition signed :: "bool \<Rightarrow> number \<Rightarrow> number" where
  "signed s w = (if s then w OR 0x8000000000000000 else w)"

function bit_length :: "int \<Rightarrow> int" where
  "bit_length n = (if n \<le> 0 then 0 else 1 + bit_length (n div 2))"
  by pat_completeness auto
termination
  by (relation "measure nat") auto

text \<open>
  \<open>round_to_number s n e\<close> is the Number nearest to \<open>n * 2 ^ e\<close> (\<open>n\<close> not negative),
  with sign \<open>s\<close>: the significand keeps 53 bits (fewer below the smallest normal Number),
  a tie goes to the even significand, and a value past the largest Number becomes an
  infinity.
\<close>

definition round_to_number :: "bool \<Rightarrow> int \<Rightarrow> int \<Rightarrow> number" where
  "round_to_number s n e =
     (let e1 = max (e + bit_length n - 53) (- 1074);
          m1 = (if e1 \<le> e then n * 2 ^ nat (e - e1)
                else let d = nat (e1 - e); q = n div 2 ^ d; r = n mod 2 ^ d; h = 2 ^ (d - 1)
                     in if h < r \<or> (r = h \<and> odd q) then q + 1 else q);
          e2 = (if m1 = 2 ^ 53 then e1 + 1 else e1);
          m2 = (if m1 = 2 ^ 53 then 2 ^ 52 else m1)
      in if 971 < e2 then signed s Infinity
         else if m2 < 2 ^ 52 then signed s (word_of_int m2)
         else signed s (push_bit 52 (word_of_int (e2 + 1075)) OR word_of_int (m2 - 2 ^ 52)))"

text \<open>The Number \<open>m * 2 ^ e\<close>, for writing literals: \<open>dyadic 1 (- 1)\<close> is \<open>0.5\<close>.\<close>

definition dyadic :: "int \<Rightarrow> int \<Rightarrow> number" where
  "dyadic m e = round_to_number (m < 0) \<bar>m\<bar> e"

text \<open>The operator \<open>*\<close> on two Numbers.\<close>

definition Number_multiply :: "number \<Rightarrow> number \<Rightarrow> number" where
  "Number_multiply a b =
     (let s = (negative a \<noteq> negative b)
      in if is_NaN a \<or> is_NaN b then NaN
         else if \<not> is_finite a
           then (if significand b = 0 \<and> is_finite b then NaN else signed s Infinity)
         else if \<not> is_finite b
           then (if significand a = 0 then NaN else signed s Infinity)
         else round_to_number s (significand a * significand b) (exponent a + exponent b))"

definition pow10 :: "int \<Rightarrow> rat" where
  "pow10 n = (if 0 \<le> n then 10 ^ nat n else 1 / 10 ^ nat (- n))"

definition pow2 :: "int \<Rightarrow> rat" where
  "pow2 n = (if 0 \<le> n then 2 ^ nat n else 1 / 2 ^ nat (- n))"

text \<open>
  \<open>decimal_exponent fuel v n\<close> moves the estimate \<open>n\<close> until
  \<open>10 ^ (n - 1) \<le> v < 10 ^ n\<close>; the estimate it is started from is never more than two
  steps away.
\<close>

fun decimal_exponent :: "nat \<Rightarrow> rat \<Rightarrow> int \<Rightarrow> int" where
  "decimal_exponent 0 v n = n"
| "decimal_exponent (Suc fuel) v n =
     (if v < pow10 (n - 1) then decimal_exponent fuel v (n - 1)
      else if pow10 n \<le> v then decimal_exponent fuel v (n + 1)
      else n)"

function decimal_digits :: "int \<Rightarrow> string" where
  "decimal_digits n =
     (if n < 10 then [''0123456789'' ! nat n]
      else decimal_digits (n div 10) @ [''0123456789'' ! nat (n mod 10)])"
  by pat_completeness auto
termination
  by (relation "measure nat") auto

text \<open>
  The digits of a Number: the least count \<open>k\<close> of digits, tried from \<open>k\<close> upwards, for
  which some \<open>s\<close> of \<open>k\<close> digits has \<open>s * 10 ^ (n - k)\<close> read back as the Number
  (\<open>ok\<close> holds of the values that do); of two such \<open>s\<close> the nearer to \<open>v\<close> is taken.
  Seventeen digits always suffice for a binary64 value.
\<close>

fun shortest_digits ::
  "nat \<Rightarrow> int \<Rightarrow> int \<Rightarrow> rat \<Rightarrow> (rat \<Rightarrow> bool) \<Rightarrow> int \<times> int \<times> int" where
  "shortest_digits 0 k n v ok = (n, k, 0)"
| "shortest_digits (Suc fuel) k n v ok =
     (let scale = pow10 (n - k);
          lo = \<lfloor>v / scale\<rfloor>;
          hi = lo + 1;
          dlo = v - of_int lo * scale;
          dhi = of_int hi * scale - v;
          oklo = (10 ^ nat (k - 1) \<le> lo \<and> ok (of_int lo * scale));
          okhi = ok (of_int hi * scale);
          pick = (if oklo \<and> okhi
                  then (if dlo < dhi \<or> (dlo = dhi \<and> even lo) then lo else hi)
                  else if oklo then lo else hi)
      in if oklo \<or> okhi
         then (if pick = 10 ^ nat k then (n + 1, k, 10 ^ nat (k - 1)) else (n, k, pick))
         else shortest_digits fuel (k + 1) n v ok)"

definition Number_toString_positive :: "number \<Rightarrow> string" where
  "Number_toString_positive x =
     (let m = significand x; e = exponent x;
          v = of_int m * pow2 e;
          hi = of_int (2 * m + 1) * pow2 (e - 1);
          lo = (if m = 2 ^ 52 \<and> - 1074 < e then of_int (4 * m - 1) * pow2 (e - 2)
                else of_int (2 * m - 1) * pow2 (e - 1));
          ok = (\<lambda>c. if even m then lo \<le> c \<and> c \<le> hi else lo < c \<and> c < hi);
          n0 = decimal_exponent 8 v (((bit_length m + e - 1) * 30103) div 100000 + 1);
          (n, k, s) = shortest_digits 17 1 n0 v ok;
          ds = decimal_digits s
      in if - 5 \<le> n \<and> n \<le> 21 then
           (if k \<le> n then ds @ replicate (nat (n - k)) CHR ''0''
            else if 0 < n then take (nat n) ds @ ''.'' @ drop (nat n) ds
            else ''0.'' @ replicate (nat (- n)) CHR ''0'' @ ds)
         else
           (let ex = (if 0 \<le> n - 1 then ''+'' else ''-'') @ decimal_digits \<bar>n - 1\<bar>
            in if k = 1 then ds @ ''e'' @ ex
               else take 1 ds @ ''.'' @ drop 1 ds @ ''e'' @ ex))"

text \<open>The conversion of a Number to a String, as \<open>+\<close> with a string operand applies it.\<close>

definition Number_toString :: "number \<Rightarrow> string" where
  "Number_toString x =
     (if is_NaN x then ''NaN''
      else if is_finite x \<and> significand x = 0 then ''0''
      else (if negative x then ''-'' else []) @
           (if is_finite x then Number_toString_positive x else ''Infinity''))"

section \<open>The document: elements, events and listeners\<close>

text \<open>
  \<open>Tag.js\<close> runs against a browser document. The part of it that the Tag touches is
  embedded as a store of elements addressed by reference: \<open>document.createElement\<close> takes
  the next free reference, and an element holds what the Tag writes to it and reads from it
  (its attributes by name, the three inline style properties, its markup) together with
  the listeners that events dispatched on it reach and the events dispatched on it so far,
  oldest first. A value that an element accepts is kept in the form it was assigned in
  (the text a later read would serialise it to is not computed). A listener decides whether
  the event is prevented and does nothing else to the document; what a listener that calls
  back into the Tag would do is left open by the source.
\<close>

type_synonym ref = nat

text \<open>A Tag object: \<open>this.buttonElement\<close> and \<open>this.popupElement\<close>.\<close>

record Tag =
  buttonElement :: ref
  popupElement :: ref

text \<open>A \<open>CustomEvent\<close>: its type, its two flags and \<open>detail.tag\<close>.\<close>

record event =
  event_type :: string
  bubbles :: bool
  cancelable :: bool
  detail :: Tag

text \<open>
  A listener registered for one event type, on the element or on an ancestor that the
  bubbling event passes; \<open>prevents\<close> tells whether it calls \<open>preventDefault\<close> on the event
  handed to it.
\<close>

record listener =
  listens_to :: string
  prevents :: "event \<Rightarrow> bool"

text \<open>
  An inline style property of an element is either what the text of its \<open>style\<close> attribute
  declares (nothing, for an element that has no such attribute; the text is not parsed
  here), or the value assigned to it through \<open>element.style\<close> since that attribute was last
  set. Assigning the empty string removes the property, after which it reads as the empty
  string.
\<close>

datatype declared = FromAttribute | Assigned string

record style =
  style_display :: declared
  style_left :: declared
  style_top :: declared

record element =
  tagName :: string
  attributes :: "string \<rightharpoonup> string"
  style :: style
  innerHTML :: string
  listeners :: "listener list"
  dispatched :: "event list"

text \<open>
  Which strings an element accepts as the name of an attribute is a rule of the host: the
  \<open>Name\<close> production of XML in the DOM that \<open>Tag.js\<close> was written against, a laxer rule
  in later versions. The document carries the rule of its host.
\<close>

record document =
  elements :: "ref \<Rightarrow> element"
  next_ref :: ref
  valid_attribute_name :: "string \<Rightarrow> bool"

definition new_element :: "string \<Rightarrow> element" where
  "new_element name =
     \<lparr>tagName = name, attributes = Map.empty,
      style = \<lparr>style_display = FromAttribute, style_left = FromAttribute,
               style_top = FromAttribute\<rparr>,
      innerHTML = [], listeners = [], dispatched = []\<rparr>"

definition createElement :: "string \<Rightarrow> document \<Rightarrow> ref \<times> document" where
  "createElement name doc =
     (next_ref doc,
      doc\<lparr>elements := (elements doc)(next_ref doc := new_element name),
          next_ref := Suc (next_ref doc)\<rparr>)"

definition update_element :: "ref \<Rightarrow> (element \<Rightarrow> element) \<Rightarrow> document \<Rightarrow> document" where
  "update_element r f doc = doc\<lparr>elements := (elements doc)(r := f (elements doc r))\<rparr>"

definition set_innerHTML :: "ref \<Rightarrow> string \<Rightarrow> document \<Rightarrow> document" where
  "set_innerHTML r markup = update_element r (\<lambda>el. el\<lparr>innerHTML := markup\<rparr>)"

text \<open>
  \<open>element.style.display = v\<close>, for the two values \<open>Tag.js\<close> assigns: the empty string
  and \<open>none\<close>, which every host accepts.
\<close>

definition set_display :: "ref \<Rightarrow> string \<Rightarrow> document \<Rightarrow> document" where
  "set_display r v =
     update_element r (\<lambda>el. el\<lparr>style := (style el)\<lparr>style_display := Assigned v\<rparr>\<rparr>)"

text \<open>
  \<open>element.style.left = v\<close> and \<open>element.style.top = v\<close> take effect only when \<open>v\<close> is
  the empty string or a value CSS allows for the property; any other string is dropped and
  the property keeps what it had. The values recognised are a percentage, a length (a
  number with a unit, or a zero without one) and the keywords; a number is an optional
  sign, digits with an optional fraction or a fraction alone, and an optional exponent.
  Values written with functions (\<open>calc\<close> and the like) are outside the model; \<open>Tag.js\<close>
  assigns the String of a Number followed by \<open>%\<close>.
\<close>

definition css_space :: "char \<Rightarrow> bool" where
  "css_space c = (c \<in> set [CHR '' '', CHR 0x09, CHR 0x0A, CHR 0x0C, CHR 0x0D])"

definition css_trim :: "string \<Rightarrow> string" where
  "css_trim s = rev (dropWhile css_space (rev (dropWhile css_space s)))"

definition digit :: "char \<Rightarrow> bool" where
  "digit c = (c \<in> set ''0123456789'')"

definition lower_char :: "char \<Rightarrow> char" where
  "lower_char c =
     (case map_of (zip ''ABCDEFGHIJKLMNOPQRSTUVWXYZ'' ''abcdefghijklmnopqrstuvwxyz'') c of
        Some l \<Rightarrow> l
      | None \<Rightarrow> c)"

definition ascii_lower :: "string \<Rightarrow> string" where
  "ascii_lower s = map lower_char s"

definition css_unsigned :: "string \<Rightarrow> string" where
  "css_unsigned s =
     (case s of [] \<Rightarrow> [] | c # t \<Rightarrow> if c = CHR ''+'' \<or> c = CHR ''-'' then t else s)"

definition css_exponent :: "string \<Rightarrow> string" where
  "css_exponent s =
     (case s of
        [] \<Rightarrow> s
      | c # t \<Rightarrow>
          if (c = CHR ''e'' \<or> c = CHR ''E'') \<and> takeWhile digit (css_unsigned t) \<noteq> []
          then dropWhile digit (css_unsigned t)
          else s)"

text \<open>\<open>css_number s\<close>: the digits of the number that \<open>s\<close> starts with, and what follows it.\<close>

definition css_number :: "string \<Rightarrow> (string \<times> string) option" where
  "css_number s =
     (let s1 = css_unsigned s;
          ip = takeWhile digit s1;
          r1 = dropWhile digit s1;
          has_fraction = (case r1 of [] \<Rightarrow> False | c # t \<Rightarrow> c = CHR ''.'' \<and> takeWhile digit t \<noteq> []);
          fp = (if has_fraction then takeWhile digit (tl r1) else []);
          r2 = (if has_fraction then dropWhile digit (tl r1) else r1)
      in if ip = [] \<and> fp = [] then None else Some (ip @ fp, css_exponent r2))"

definition css_keywords :: "string list" where
  "css_keywords = [''auto'', ''inherit'', ''initial'', ''unset'', ''revert'', ''revert-layer'']"

definition css_units :: "string list" where
  "css_units =
     [''px'', ''em'', ''rem'', ''ex'', ''rex'', ''ch'', ''rch'', ''cap'', ''rcap'', ''ic'', ''ric'',
      ''lh'', ''rlh'', ''cm'', ''mm'', ''q'', ''in'', ''pt'', ''pc'',
      ''vw'', ''vh'', ''vi'', ''vb'', ''vmin'', ''vmax'',
      ''svw'', ''svh'', ''svi'', ''svb'', ''svmin'', ''svmax'',
      ''lvw'', ''lvh'', ''lvi'', ''lvb'', ''lvmin'', ''lvmax'',
      ''dvw'', ''dvh'', ''dvi'', ''dvb'', ''dvmin'', ''dvmax'',
      ''cqw'', ''cqh'', ''cqi'', ''cqb'', ''cqmin'', ''cqmax'']"

definition css_position_value :: "string \<Rightarrow> bool" where
  "css_position_value v =
     (v = [] \<or> ascii_lower (css_trim v) \<in> set css_keywords \<or>
      (case css_number (css_trim v) of
         None \<Rightarrow> False
       | Some (m, rest) \<Rightarrow>
           rest = ''%'' \<or> ascii_lower rest \<in> set css_units \<or>
           (rest = [] \<and> list_all (\<lambda>c. c = CHR ''0'') m)))"

definition set_left :: "ref \<Rightarrow> string \<Rightarrow> document \<Rightarrow> document" where
  "set_left r v doc =
     (if css_position_value v
      then update_element r (\<lambda>el. el\<lparr>style := (style el)\<lparr>style_left := Assigned v\<rparr>\<rparr>) doc
      else doc)"

definition set_top :: "ref \<Rightarrow> string \<Rightarrow> document \<Rightarrow> document" where
  "set_top r v doc =
     (if css_position_value v
      then update_element r (\<lambda>el. el\<lparr>style := (style el)\<lparr>style_top := Assigned v\<rparr>\<rparr>) doc
      else doc)"

text \<open>
  \<open>target.dispatchEvent(ev)\<close> hands the event to the listeners for its type and returns
  \<open>false\<close> exactly when the event is cancelable and one of them called
  \<open>preventDefault\<close>.
\<close>

definition prevented :: "ref \<Rightarrow> event \<Rightarrow> document \<Rightarrow> bool" where
  "prevented target ev doc =
     list_ex (\<lambda>l. listens_to l = event_type ev \<and> prevents l ev) (listeners (elements doc target))"

definition deliver :: "ref \<Rightarrow> event \<Rightarrow> document \<Rightarrow> document" where
  "deliver target ev = update_element target (\<lambda>el. el\<lparr>dispatched := dispatched el @ [ev]\<rparr>)"

definition dispatchEvent :: "ref \<Rightarrow> event \<Rightarrow> document \<Rightarrow> bool \<times> document" where
  "dispatchEvent target ev doc =
     (\<not> (cancelable ev \<and> prevented target ev doc), deliver target ev doc)"

text \<open>\<open>target.addEventListener(type, handler)\<close>, as callers of the Tag's surfaces use it.\<close>

definition addEventListener :: "ref \<Rightarrow> string \<Rightarrow> (event \<Rightarrow> bool) \<Rightarrow> document \<Rightarrow> document" where
  "addEventListener target type h =
     update_element target
       (\<lambda>el. el\<lparr>listeners := listeners el @ [\<lparr>listens_to = type, prevents = h\<rparr>]\<rparr>)"

section \<open>Values passed to a Tag\<close>

text \<open>
  The arguments a caller can pass: the primitive values, a function from the Tag (and the
  document it lives in) to markup, kept with its source text, and a plain object whose own
  enumerable properties, in the order \<open>for ... in\<close> visits them, are strings.
\<close>

datatype jsval =
    JUndefined
  | JNull
  | JBoolean bool
  | JNumber number
  | JString string
  | JFunction string "Tag \<Rightarrow> document \<Rightarrow> string"
  | JObject "(string \<times> string) list"

text \<open>The \<open>position\<close> argument of the constructor, read as \<open>position.x\<close> and \<open>position.y\<close>.\<close>

record position =
  position_x :: jsval
  position_y :: jsval

text \<open>
  Modelled from the spec: \<open>util/type-error-message\<close> is required by \<open>Tag.js\<close> and is not
  among the sources. The spec tells that the errors built from its messages are
  invalid-argument errors and that the one of \<open>setPosition\<close> names the coordinate and expects
  a number; a message is therefore kept as the helper that made it, applied to the value
  \<open>Tag.js\<close> hands to it.
\<close>

datatype message = IntegerMessage jsval | ObjectMessage jsval

definition getIntegerMessage :: "jsval \<Rightarrow> message" where
  "getIntegerMessage v = IntegerMessage v"

definition getObjectMessage :: "jsval \<Rightarrow> message" where
  "getObjectMessage v = ObjectMessage v"

text \<open>
  What a call can throw: \<open>new Error(message)\<close>, the \<open>ReferenceError\<close> of reading a name that
  is not declared, the \<open>TypeError\<close> of the language, and a \<open>DOMException\<close> of the host,
  kept by its name.
\<close>

datatype error = Error message | ReferenceError string | TypeError string | DOMException string

type_synonym 'a outcome = "(error + 'a) \<times> document"

text \<open>
  \<open>element.getAttribute(name)\<close> and \<open>element.setAttribute(name, value)\<close> on an HTML
  element. Both put the name in ASCII lower case. \<open>setAttribute\<close> throws an
  \<open>InvalidCharacterError\<close> for a name the host does not accept; setting \<open>style\<close> replaces
  the element's inline style by what the new text declares. (The text kept under \<open>style\<close>
  is the one last set: it is not rewritten when a style property is assigned, and
  \<open>Tag.js\<close> reads the attribute \<open>class\<close> only.)
\<close>

definition getAttribute :: "ref \<Rightarrow> string \<Rightarrow> document \<Rightarrow> string option" where
  "getAttribute r name doc = attributes (elements doc r) (ascii_lower name)"

definition setAttribute :: "ref \<Rightarrow> string \<Rightarrow> string \<Rightarrow> document \<Rightarrow> unit outcome" where
  "setAttribute r name v doc =
     (if \<not> valid_attribute_name doc name
      then (Inl (DOMException ''InvalidCharacterError''), doc)
      else
        (Inr (),
         update_element r
           (\<lambda>el. if ascii_lower name = ''style''
                 then el\<lparr>attributes := (attributes el)(ascii_lower name \<mapsto> v),
                         style := \<lparr>style_display = FromAttribute, style_left = FromAttribute,
                                    style_top = FromAttribute\<rparr>\<rparr>
                 else el\<lparr>attributes := (attributes el)(ascii_lower name \<mapsto> v)\<rparr>)
           doc))"

text \<open>
  Modelled from the spec: \<open>util/object-is\<close> is required by \<open>Tag.js\<close> and is not among the
  sources. By the spec \<open>setText\<close> tests for a string or a callable, \<open>setPosition\<close> for a
  finite number, and the attribute merge for a plain key/value mapping; \<open>Tag.js\<close> asks
  \<open>ofType\<close> for the type names \<open>'string'\<close> and \<open>'object'\<close> only.
\<close>

definition ObjectIs_ofType :: "jsval \<Rightarrow> string \<Rightarrow> bool" where
  "ObjectIs_ofType v t =
     (case v of JString _ \<Rightarrow> t = ''string'' | JObject _ \<Rightarrow> t = ''object'' | _ \<Rightarrow> False)"

definition ObjectIs_function :: "jsval \<Rightarrow> bool" where
  "ObjectIs_function v = (case v of JFunction _ _ \<Rightarrow> True | _ \<Rightarrow> False)"

definition ObjectIs_number :: "jsval \<Rightarrow> bool" where
  "ObjectIs_number v = (case v of JNumber n \<Rightarrow> is_finite n | _ \<Rightarrow> False)"

text \<open>A parameter declared with a default takes it when the argument is \<open>undefined\<close>.\<close>

definition default_parameter :: "jsval \<Rightarrow> jsval \<Rightarrow> jsval" where
  "default_parameter v d = (case v of JUndefined \<Rightarrow> d | _ \<Rightarrow> v)"

text \<open>Calling a value with the Tag as its argument: a \<open>TypeError\<close> unless it is a function.\<close>

definition call :: "jsval \<Rightarrow> Tag \<Rightarrow> document \<Rightarrow> error + string" where
  "call v this doc =
     (case v of JFunction _ f \<Rightarrow> Inr (f this doc)
      | _ \<Rightarrow> Inl (TypeError ''text is not a function''))"

text \<open>
  The string that assigning a value to \<open>innerHTML\<close> stores: \<open>null\<close> becomes the empty
  string, every other value its conversion to a String. A plain object converts through
  \<open>Object.prototype.toString\<close>, unless an own property \<open>toString\<close> (here a string, which
  cannot be called) hides it, and then the conversion throws.
\<close>

definition DOMString :: "jsval \<Rightarrow> error + string" where
  "DOMString v =
     (case v of
        JUndefined \<Rightarrow> Inr ''undefined''
      | JNull \<Rightarrow> Inr []
      | JBoolean b \<Rightarrow> Inr (if b then ''true'' else ''false'')
      | JNumber n \<Rightarrow> Inr (Number_toString n)
      | JString s \<Rightarrow> Inr s
      | JFunction src _ \<Rightarrow> Inr src
      | JObject kvs \<Rightarrow>
          (if ''toString'' \<in> set (map fst kvs)
           then Inl (TypeError ''Cannot convert object to primitive value'')
           else Inr ''[object Object]''))"

text \<open>The Number a value is; \<open>setPosition\<close> passes on only values that are Numbers.\<close>

definition the_number :: "jsval \<Rightarrow> number" where
  "the_number v = (case v of JNumber n \<Rightarrow> n | _ \<Rightarrow> NaN)"

text \<open>The own properties \<open>for ... in\<close> visits; a value that is no object has none.\<close>

definition properties :: "jsval \<Rightarrow> (string \<times> string) list" where
  "properties v = (case v of JObject kvs \<Rightarrow> kvs | _ \<Rightarrow> [])"

section \<open>The Tag\<close>

text \<open>
  Each method takes the Tag it is called on (\<open>this\<close>) and the document, and gives back what
  it returns or throws together with the document it leaves. What has happened to the
  document before a \<open>throw\<close> stays.
\<close>

definition createTagEvent :: "string \<Rightarrow> Tag \<Rightarrow> event" where
  "createTagEvent eventName tag =
     \<lparr>event_type = eventName, bubbles = True, cancelable = False, detail = tag\<rparr>"

definition createCancelableTagEvent :: "string \<Rightarrow> Tag \<Rightarrow> event" where
  "createCancelableTagEvent eventName tag =
     \<lparr>event_type = eventName, bubbles = True, cancelable = True, detail = tag\<rparr>"

definition show' :: "Tag \<Rightarrow> document \<Rightarrow> Tag outcome" where
  "show' this doc =
     (let showEvent = createCancelableTagEvent ''taggd.tag.show'' this;
          (notPrevented, doc1) = dispatchEvent (popupElement this) showEvent doc;
          isCanceled = \<not> notPrevented
      in if \<not> isCanceled
         then let doc2 = set_display (popupElement this) [] doc1;
                  shownEvent = createTagEvent ''taggd.tag.shown'' this;
                  doc3 = snd (dispatchEvent (popupElement this) shownEvent doc2)
              in (Inr this, doc3)
         else (Inr this, doc1))"

definition hide :: "Tag \<Rightarrow> document \<Rightarrow> Tag outcome" where
  "hide this doc =
     (let hideEvent = createCancelableTagEvent ''taggd.tag.hide'' this;
          (notPrevented, doc1) = dispatchEvent (popupElement this) hideEvent doc;
          isCanceled = \<not> notPrevented
      in if \<not> isCanceled
         then let doc2 = set_display (popupElement this) ''none'' doc1;
                  hiddenEvent = createTagEvent ''taggd.tag.hidden'' this;
                  doc3 = snd (dispatchEvent (popupElement this) hiddenEvent doc2)
              in (Inr this, doc3)
         else (Inr this, doc1))"

text \<open>
  In \<open>setText\<close> the argument of \<open>TypeErrorMessage.getMessage\<close> is the name \<open>type\<close>, which no
  scope of \<open>Tag.js\<close> declares: evaluating it throws a \<open>ReferenceError\<close> before the helper
  is called or the \<open>Error\<close> is built.
\<close>

definition setText :: "jsval \<Rightarrow> Tag \<Rightarrow> document \<Rightarrow> Tag outcome" where
  "setText text this doc =
     (if \<not> ObjectIs_ofType text ''string'' \<and> ObjectIs_function text
      then (Inl (ReferenceError ''type''), doc)
      else
        let changeEvent = createCancelableTagEvent ''taggd.tag.change'' this;
            (notPrevented, doc1) = dispatchEvent (popupElement this) changeEvent doc;
            isCanceled = \<not> notPrevented
        in if \<not> isCanceled
           then (case (if ObjectIs_function text then call text this doc1 else DOMString text) of
                   Inl e \<Rightarrow> (Inl e, doc1)
                 | Inr markup \<Rightarrow>
                     let doc2 = set_innerHTML (popupElement this) markup doc1;
                         changedEvent = createTagEvent ''taggd.tag.changed'' this;
                         doc3 = snd (dispatchEvent (popupElement this) changedEvent doc2)
                     in (Inr this, doc3))
           else (Inr this, doc1))"

record positionStyle =
  pos_left :: string
  pos_top :: string

definition getPositionStyle :: "number \<Rightarrow> number \<Rightarrow> positionStyle" where
  "getPositionStyle x y =
     \<lparr>pos_left = Number_toString (Number_multiply x (dyadic 100 0)) @ ''%'',
      pos_top = Number_toString (Number_multiply y (dyadic 100 0)) @ ''%''\<rparr>"

definition setPosition :: "jsval \<Rightarrow> jsval \<Rightarrow> Tag \<Rightarrow> document \<Rightarrow> Tag outcome" where
  "setPosition x y this doc =
     (if \<not> ObjectIs_number x then (Inl (Error (getIntegerMessage x)), doc)
      else if \<not> ObjectIs_number y then (Inl (Error (getIntegerMessage y)), doc)
      else
        let changeEvent = createCancelableTagEvent ''taggd.tag.change'' this;
            (notPrevented, doc1) = dispatchEvent (popupElement this) changeEvent doc;
            isCanceled = \<not> notPrevented
        in if \<not> isCanceled
           then let positionStyle = getPositionStyle (the_number x) (the_number y);
                    doc2 = set_left (popupElement this) (pos_left positionStyle) doc1;
                    doc3 = set_top (popupElement this) (pos_top positionStyle) doc2;
                    changedEvent = createTagEvent ''taggd.tag.changed'' this;
                    doc4 = snd (dispatchEvent (popupElement this) changedEvent doc3)
                in (Inr this, doc4)
           else (Inr this, doc1))"

text \<open>
  The body of the \<open>for ... in\<close> loop of \<open>setElementAttributes\<close>, once for each property.
  \<open>getAttribute\<close> gives \<open>null\<close> for an absent attribute; \<open>null\<close> and the empty string are
  the two results that are not truthy. An exception of \<open>setAttribute\<close> ends the loop, and
  what the earlier turns have written stays.
\<close>

definition truthy :: "string option \<Rightarrow> bool" where
  "truthy a = (case a of None \<Rightarrow> False | Some s \<Rightarrow> s \<noteq> [])"

definition string_of :: "string option \<Rightarrow> string" where
  "string_of a = (case a of None \<Rightarrow> ''null'' | Some s \<Rightarrow> s)"

fun for_in_attributes :: "ref \<Rightarrow> (string \<times> string) list \<Rightarrow> document \<Rightarrow> unit outcome" where
  "for_in_attributes element [] doc = (Inr (), doc)"
| "for_in_attributes element ((attribute, val) # rest) doc =
     (if attribute = ''class'' \<and> truthy (getAttribute element attribute doc)
      then let classValue = string_of (getAttribute element attribute doc) @ '' '' @ val
           in (case setAttribute element attribute classValue doc of
                 (Inl e, doc1) \<Rightarrow> (Inl e, doc1)
               | (Inr _, doc1) \<Rightarrow> for_in_attributes element rest doc1)
      else (case setAttribute element attribute val doc of
              (Inl e, doc1) \<Rightarrow> (Inl e, doc1)
            | (Inr _, doc1) \<Rightarrow> for_in_attributes element rest doc1))"

definition setElementAttributes :: "ref \<Rightarrow> jsval \<Rightarrow> document \<Rightarrow> ref outcome" where
  "setElementAttributes element attributes0 doc =
     (let attrs = default_parameter attributes0 (JObject [])
      in if \<not> ObjectIs_ofType attrs ''object''
         then (Inl (Error (getObjectMessage attrs)), doc)
         else (case for_in_attributes element (properties attrs) doc of
                 (Inl e, doc1) \<Rightarrow> (Inl e, doc1)
               | (Inr _, doc1) \<Rightarrow> (Inr element, doc1)))"

definition setButtonAttributes :: "jsval \<Rightarrow> Tag \<Rightarrow> document \<Rightarrow> Tag outcome" where
  "setButtonAttributes attributes0 this doc =
     (let attrs = default_parameter attributes0 (JObject []);
          changeEvent = createCancelableTagEvent ''taggd.tag.change'' this;
          (notPrevented, doc1) = dispatchEvent (buttonElement this) changeEvent doc;
          isCanceled = \<not> notPrevented
      in if \<not> isCanceled
         then (case setElementAttributes (buttonElement this) attrs doc1 of
                 (Inl e, doc2) \<Rightarrow> (Inl e, doc2)
               | (Inr _, doc2) \<Rightarrow>
                   let changedEvent = createTagEvent ''taggd.tag.changed'' this;
                       doc3 = snd (dispatchEvent (buttonElement this) changedEvent doc2)
                   in (Inr this, doc3))
         else (Inr this, doc1))"

definition setPopupAttributes :: "jsval \<Rightarrow> Tag \<Rightarrow> document \<Rightarrow> Tag outcome" where
  "setPopupAttributes attributes0 this doc =
     (let attrs = default_parameter attributes0 (JObject []);
          changeEvent = createCancelableTagEvent ''taggd.tag.change'' this;
          (notPrevented, doc1) = dispatchEvent (popupElement this) changeEvent doc;
          isCanceled = \<not> notPrevented
      in if \<not> isCanceled
         then (case setElementAttributes (popupElement this) attrs doc1 of
                 (Inl e, doc2) \<Rightarrow> (Inl e, doc2)
               | (Inr _, doc2) \<Rightarrow>
                   let changedEvent = createTagEvent ''taggd.tag.changed'' this;
                       doc3 = snd (dispatchEvent (popupElement this) changedEvent doc2)
                   in (Inr this, doc3))
         else (Inr this, doc1))"

text \<open>One statement after another: a \<open>throw\<close> ends the sequence.\<close>

definition and_then :: "'a outcome \<Rightarrow> ('a \<Rightarrow> document \<Rightarrow> 'b outcome) \<Rightarrow> 'b outcome" where
  "and_then r f = (case r of (Inl e, doc) \<Rightarrow> (Inl e, doc) | (Inr x, doc) \<Rightarrow> f x doc)"

text \<open>\<open>new Tag(position, text, buttonAttributes, popupAttributes)\<close>.\<close>

definition new_Tag :: "position \<Rightarrow> jsval \<Rightarrow> jsval \<Rightarrow> jsval \<Rightarrow> document \<Rightarrow> Tag outcome" where
  "new_Tag position text buttonAttributes0 popupAttributes0 doc =
     (let buttonAttributes = default_parameter buttonAttributes0 (JObject []);
          popupAttributes = default_parameter popupAttributes0 (JObject []);
          (button, doc1) = createElement ''button'' doc;
          (popup, doc2) = createElement ''span'' doc1;
          this = \<lparr>buttonElement = button, popupElement = popup\<rparr>
      in and_then (and_then (and_then (and_then
           (setButtonAttributes buttonAttributes this doc2)
           (\<lambda>_. setPopupAttributes popupAttributes this))
           (\<lambda>_. setPosition (position_x position) (position_y position) this))
           (\<lambda>_. setText text this))
           (\<lambda>_. hide this))"

text \<open>
  The plain object given to \<open>createFromObject\<close>: its four fields, an absent one reading
  as \<open>undefined\<close>.
\<close>

record tagObject =
  obj_position :: position
  obj_text :: jsval
  obj_buttonAttributes :: jsval
  obj_popupAttributes :: jsval

definition createFromObject :: "tagObject \<Rightarrow> document \<Rightarrow> Tag outcome" where
  "createFromObject object doc =
     new_Tag (obj_position object) (obj_text object)
       (obj_buttonAttributes object) (obj_popupAttributes object) doc"

text \<open>
  A document in which nothing has been created yet. Its host accepts as attribute names
  the names of the XML \<open>Name\<close> production, which every version of the DOM accepts: a
  letter, \<open>_\<close> or \<open>:\<close>, then letters, digits, \<open>-\<close>, \<open>.\<close>, \<open>_\<close> and \<open>:\<close> (bytes outside
  ASCII are let through).
\<close>

definition non_ascii :: "char \<Rightarrow> bool" where
  "non_ascii c = (case c of Char b0 b1 b2 b3 b4 b5 b6 b7 \<Rightarrow> b7)"

definition name_start :: "char \<Rightarrow> bool" where
  "name_start c =
     (c \<in> set ''abcdefghijklmnopqrstuvwxyzABCDEFGHIJKLMNOPQRSTUVWXYZ_:'' \<or> non_ascii c)"

definition xml_name :: "string \<Rightarrow> bool" where
  "xml_name s =
     (case s of
        [] \<Rightarrow> False
      | c # t \<Rightarrow> name_start c \<and> list_all (\<lambda>d. name_start d \<or> d \<in> set ''0123456789-.'') t)"

definition empty_document :: document where
  "empty_document =
     \<lparr>elements = (\<lambda>_. new_element []), next_ref = 0, valid_attribute_name = xml_name\<rparr>"

text \<open>
  The content surface is hidden when \<open>none\<close> has been assigned to its inline \<open>display\<close>.
\<close>

definition hidden :: "ref \<Rightarrow> document \<Rightarrow> bool" where
  "hidden r doc = (style_display (style (elements doc r)) = Assigned ''none'')"

section \<open>The attribute merge as the specification words it\<close>


text \<open>A value is a plain key/value mapping when it is an object of own string properties.\<close>

definition is_mapping :: "jsval \<Rightarrow> bool" where
  "is_mapping v = (case v of JObject _ \<Rightarrow> True | _ \<Rightarrow> False)"

section \<open>A Tag to try the operations on\<close>

text \<open>
  \<open>Tag.createFromObject({position: {x: 0.5, y: 0.25}, text: 'hi'})\<close> in a document where
  nothing else has been created, and the same Tag after a caller has registered, on both of
  its surfaces, listeners that call \<open>preventDefault\<close> on every intent.
\<close>

definition example_object :: tagObject where
  "example_object =
     \<lparr>obj_position = \<lparr>position_x = JNumber (dyadic 1 (- 1)), position_y = JNumber (dyadic 1 (- 2))\<rparr>,
      obj_text = JString ''hi'',
      obj_buttonAttributes = JUndefined,
      obj_popupAttributes = JUndefined\<rparr>"

definition example_tag :: Tag where
  "example_tag = \<lparr>buttonElement = 0, popupElement = 1\<rparr>"

definition example_document :: document where
  "example_document = snd (createFromObject example_object empty_document)"

definition veto_all :: "ref \<Rightarrow> document \<Rightarrow> document" where
  "veto_all r doc =
     addEventListener r ''taggd.tag.show'' (\<lambda>_. True)
       (addEventListener r ''taggd.tag.hide'' (\<lambda>_. True)
         (addEventListener r ''taggd.tag.change'' (\<lambda>_. True) doc))"

definition guarded_document :: document where
  "guarded_document = veto_all 0 (veto_all 1 example_document)"


section \<open>What a construction that does not throw has done\<close>

text \<open>
  The document after \<open>new Tag({x, y}, s, ba, pa)\<close> for a string \<open>s\<close>: the two elements
  created, and then, in the order of the constructor's statements, every event delivered
  and every write made (for attribute maps whose names the host accepts). The elements are
  new, so no listener hears any of the eight events.
\<close>

definition constructed :: "jsval \<Rightarrow> jsval \<Rightarrow> string \<Rightarrow> jsval \<Rightarrow> jsval \<Rightarrow> document \<Rightarrow> document" where
  "constructed x y s ba pa doc =
     (let t = \<lparr>buttonElement = next_ref doc, popupElement = Suc (next_ref doc)\<rparr>;
          b = buttonElement t; p = popupElement t;
          change = createCancelableTagEvent ''taggd.tag.change'' t;
          changed = createTagEvent ''taggd.tag.changed'' t;
          ps = getPositionStyle (the_number x) (the_number y)
      in deliver p (createTagEvent ''taggd.tag.hidden'' t)
          (set_display p ''none''
          (deliver p (createCancelableTagEvent ''taggd.tag.hide'' t)
          (deliver p changed
          (set_innerHTML p s
          (deliver p change
          (deliver p changed
          (set_top p (pos_top ps)
          (set_left p (pos_left ps)
          (deliver p change
          (deliver p changed
          (snd (for_in_attributes p (properties (default_parameter pa (JObject [])))
          (deliver p change
          (deliver b changed
          (snd (for_in_attributes b (properties (default_parameter ba (JObject [])))
          (deliver b change
          (snd (createElement ''span'' (snd (createElement ''button'' doc))))))))))))))))))))))"

section \<open>Reading the document after an update\<close>

lemma elements_update_element:
  "elements (update_element r f doc) = (elements doc)(r := f (elements doc r))"
  by (simp add: update_element_def)

lemma next_ref_update_element:
  "next_ref (update_element r f doc) = next_ref doc"
  by (simp add: update_element_def)

lemma valid_attribute_name_update_element:
  "valid_attribute_name (update_element r f doc) = valid_attribute_name doc"
  by (simp add: update_element_def)

lemma update_element_twice:
  "update_element r f (update_element r g doc) = update_element r (\<lambda>el. f (g el)) doc"
  by (simp add: update_element_def)

lemma update_element_same:
  "f (elements doc r) = elements doc r \<Longrightarrow> update_element r f doc = doc"
  by (simp add: update_element_def)


lemma elements_deliver:
  "elements (deliver t ev doc) r =
     (if r = t then dispatched_update (\<lambda>l. l @ [ev]) (elements doc r) else elements doc r)"
  by (simp add: deliver_def elements_update_element)

lemma elements_set_display:
  "elements (set_display t v doc) r =
     (if r = t then style_update (style_display_update (\<lambda>_. Assigned v)) (elements doc r)
      else elements doc r)"
  by (simp add: set_display_def elements_update_element)

lemma elements_set_left:
  "elements (set_left t v doc) r =
     (if r = t \<and> css_position_value v
      then style_update (style_left_update (\<lambda>_. Assigned v)) (elements doc r)
      else elements doc r)"
  by (simp add: set_left_def elements_update_element)

lemma elements_set_top:
  "elements (set_top t v doc) r =
     (if r = t \<and> css_position_value v
      then style_update (style_top_update (\<lambda>_. Assigned v)) (elements doc r)
      else elements doc r)"
  by (simp add: set_top_def elements_update_element)

lemma elements_set_innerHTML:
  "elements (set_innerHTML t v doc) r =
     (if r = t then innerHTML_update (\<lambda>_. v) (elements doc r) else elements doc r)"
  by (simp add: set_innerHTML_def elements_update_element)

lemma elements_addEventListener:
  "elements (addEventListener t type h doc) r =
     (if r = t
      then listeners_update (\<lambda>l. l @ [\<lparr>listens_to = type, prevents = h\<rparr>]) (elements doc r)
      else elements doc r)"
  by (simp add: addEventListener_def elements_update_element)

lemma elements_createElement:
  "elements (snd (createElement name doc)) r =
     (if r = next_ref doc then new_element name else elements doc r)"
  by (simp add: createElement_def)

lemma next_ref_createElement:
  "next_ref (snd (createElement name doc)) = Suc (next_ref doc)"
  by (simp add: createElement_def)

lemmas read_simps =
  elements_deliver elements_set_display elements_set_left elements_set_top
  elements_set_innerHTML elements_addEventListener
  elements_createElement next_ref_createElement

text \<open>No operation on the document changes the rule of its host.\<close>

lemma valid_attribute_name_kept:
  "valid_attribute_name (deliver t ev doc) = valid_attribute_name doc"
  "valid_attribute_name (set_display t v doc) = valid_attribute_name doc"
  "valid_attribute_name (set_left t v doc) = valid_attribute_name doc"
  "valid_attribute_name (set_top t v doc) = valid_attribute_name doc"
  "valid_attribute_name (set_innerHTML t v doc) = valid_attribute_name doc"
  "valid_attribute_name (addEventListener t type h doc) = valid_attribute_name doc"
  "valid_attribute_name (snd (createElement name doc)) = valid_attribute_name doc"
  "valid_attribute_name (snd (setAttribute t name v doc)) = valid_attribute_name doc"
  by (simp_all add: deliver_def set_display_def set_left_def set_top_def set_innerHTML_def
      addEventListener_def createElement_def setAttribute_def update_element_def)

section \<open>The loop of \<open>setElementAttributes\<close>\<close>

text \<open>
  \<open>setAttribute\<close> and the loop write to their element alone, and there to its attributes
  and, through a \<open>style\<close> attribute, to its inline style.
\<close>

lemma setAttribute_frame:
  "\<exists>f. snd (setAttribute element name v doc) = update_element element f doc \<and>
       (\<forall>el. tagName (f el) = tagName el \<and> innerHTML (f el) = innerHTML el \<and>
             listeners (f el) = listeners el \<and> dispatched (f el) = dispatched el)"
proof (cases "valid_attribute_name doc name")
  case True
  then show ?thesis
    by (intro exI [of _ "\<lambda>el. if ascii_lower name = ''style''
                 then el\<lparr>attributes := (attributes el)(ascii_lower name \<mapsto> v),
                         style := \<lparr>style_display = FromAttribute, style_left = FromAttribute,
                                    style_top = FromAttribute\<rparr>\<rparr>
                 else el\<lparr>attributes := (attributes el)(ascii_lower name \<mapsto> v)\<rparr>"])
      (simp add: setAttribute_def)
next
  case False
  then show ?thesis
    by (intro exI [of _ "\<lambda>el. el"]) (simp add: setAttribute_def update_element_same)
qed

lemma for_in_attributes_frame:
  "\<exists>f. snd (for_in_attributes element kvs doc) = update_element element f doc \<and>
       (\<forall>el. tagName (f el) = tagName el \<and> innerHTML (f el) = innerHTML el \<and>
             listeners (f el) = listeners el \<and> dispatched (f el) = dispatched el)"
proof (induction kvs arbitrary: doc)
  case Nil
  show ?case
    by (intro exI [of _ "\<lambda>el. el"]) (simp add: update_element_same)
next
  case (Cons kv kvs)
  obtain k v where kv: "kv = (k, v)" by (cases kv)
  define v' where "v' =
    (if k = ''class'' \<and> truthy (getAttribute element k doc)
     then string_of (getAttribute element k doc) @ '' '' @ v else v)"
  have step: "for_in_attributes element (kv # kvs) doc =
      (case setAttribute element k v' doc of
         (Inl e, doc1) \<Rightarrow> (Inl e, doc1)
       | (Inr _, doc1) \<Rightarrow> for_in_attributes element kvs doc1)"
    by (auto simp: kv Let_def v'_def)
  obtain g where g: "snd (setAttribute element k v' doc) = update_element element g doc"
    and gk: "\<forall>el. tagName (g el) = tagName el \<and> innerHTML (g el) = innerHTML el \<and>
             listeners (g el) = listeners el \<and> dispatched (g el) = dispatched el"
    using setAttribute_frame by blast
  obtain r1 d1 where sa: "setAttribute element k v' doc = (r1, d1)"
    by (cases "setAttribute element k v' doc")
  from g sa have d1: "d1 = update_element element g doc" by simp
  show ?case
  proof (cases r1)
    case (Inl e)
    then have "snd (for_in_attributes element (kv # kvs) doc) = update_element element g doc"
      by (simp add: step sa d1)
    with gk show ?thesis by blast
  next
    case (Inr u)
    then have eq: "for_in_attributes element (kv # kvs) doc =
        for_in_attributes element kvs (update_element element g doc)"
      by (simp add: step sa d1)
    obtain f where f: "snd (for_in_attributes element kvs (update_element element g doc)) =
        update_element element f (update_element element g doc)"
      and fk: "\<forall>el. tagName (f el) = tagName el \<and> innerHTML (f el) = innerHTML el \<and>
             listeners (f el) = listeners el \<and> dispatched (f el) = dispatched el"
      using Cons.IH by blast
    have "snd (for_in_attributes element (kv # kvs) doc) =
        update_element element (\<lambda>el. f (g el)) doc"
      by (simp add: eq f update_element_twice)
    moreover have "\<forall>el. tagName (f (g el)) = tagName el \<and> innerHTML (f (g el)) = innerHTML el \<and>
             listeners (f (g el)) = listeners el \<and> dispatched (f (g el)) = dispatched el"
      using fk gk by simp
    ultimately show ?thesis by blast
  qed
qed

lemma for_in_attributes_other:
  "r \<noteq> element \<Longrightarrow> elements (snd (for_in_attributes element kvs doc)) r = elements doc r"
  using for_in_attributes_frame [of element kvs doc]
  by (auto simp: elements_update_element)

lemma for_in_attributes_listeners:
  "listeners (elements (snd (for_in_attributes element kvs doc)) r) = listeners (elements doc r)"
  using for_in_attributes_frame [of element kvs doc]
  by (auto simp: elements_update_element)

lemma for_in_attributes_host:
  "valid_attribute_name (snd (for_in_attributes element kvs doc)) = valid_attribute_name doc"
    "next_ref (snd (for_in_attributes element kvs doc)) = next_ref doc"
  using for_in_attributes_frame [of element kvs doc]
  by (auto simp: valid_attribute_name_update_element next_ref_update_element)




lemma for_in_attributes_accepted:
  "list_all (valid_attribute_name doc) (map fst kvs) \<Longrightarrow>
   fst (for_in_attributes element kvs doc) = Inr ()"
proof (induction kvs arbitrary: doc)
  case Nil
  show ?case by simp
next
  case (Cons kv kvs)
  obtain k v where kv: "kv = (k, v)" by (cases kv)
  from Cons.prems have ok: "valid_attribute_name doc k"
    and rest: "list_all (valid_attribute_name doc) (map fst kvs)"
    by (auto simp: kv)
  have "\<And>w. list_all (valid_attribute_name (snd (setAttribute element k w doc))) (map fst kvs)"
    using rest by (simp add: valid_attribute_name_kept)
  then show ?case
    using ok Cons.IH
    by (auto simp: kv Let_def setAttribute_def split: prod.splits)
qed

section \<open>The methods without their local names\<close>

text \<open>
  Each method as one expression over the document it is given: the intent is delivered,
  and what follows depends on whether a listener prevented it.
\<close>

lemma show_eq:
  "show' this doc =
     (Inr this,
      if prevented (popupElement this) (createCancelableTagEvent ''taggd.tag.show'' this) doc
      then deliver (popupElement this) (createCancelableTagEvent ''taggd.tag.show'' this) doc
      else deliver (popupElement this) (createTagEvent ''taggd.tag.shown'' this)
             (set_display (popupElement this) []
               (deliver (popupElement this) (createCancelableTagEvent ''taggd.tag.show'' this) doc)))"
  by (simp add: show'_def dispatchEvent_def Let_def createCancelableTagEvent_def)

lemma hide_eq:
  "hide this doc =
     (Inr this,
      if prevented (popupElement this) (createCancelableTagEvent ''taggd.tag.hide'' this) doc
      then deliver (popupElement this) (createCancelableTagEvent ''taggd.tag.hide'' this) doc
      else deliver (popupElement this) (createTagEvent ''taggd.tag.hidden'' this)
             (set_display (popupElement this) ''none''
               (deliver (popupElement this) (createCancelableTagEvent ''taggd.tag.hide'' this) doc)))"
  by (simp add: hide_def dispatchEvent_def Let_def createCancelableTagEvent_def)

lemma setText_eq:
  "setText text this doc =
     (if \<not> ObjectIs_ofType text ''string'' \<and> ObjectIs_function text
      then (Inl (ReferenceError ''type''), doc)
      else if prevented (popupElement this) (createCancelableTagEvent ''taggd.tag.change'' this) doc
      then (Inr this,
            deliver (popupElement this) (createCancelableTagEvent ''taggd.tag.change'' this) doc)
      else (case (if ObjectIs_function text
                  then call text this
                    (deliver (popupElement this) (createCancelableTagEvent ''taggd.tag.change'' this) doc)
                  else DOMString text) of
              Inl e \<Rightarrow>
                (Inl e,
                 deliver (popupElement this) (createCancelableTagEvent ''taggd.tag.change'' this) doc)
            | Inr markup \<Rightarrow>
                (Inr this,
                 deliver (popupElement this) (createTagEvent ''taggd.tag.changed'' this)
                   (set_innerHTML (popupElement this) markup
                     (deliver (popupElement this)
                       (createCancelableTagEvent ''taggd.tag.change'' this) doc)))))"
  by (simp add: setText_def dispatchEvent_def Let_def createCancelableTagEvent_def
      split: sum.splits)

lemma setPosition_eq:
  "setPosition x y this doc =
     (if \<not> ObjectIs_number x then (Inl (Error (getIntegerMessage x)), doc)
      else if \<not> ObjectIs_number y then (Inl (Error (getIntegerMessage y)), doc)
      else if prevented (popupElement this) (createCancelableTagEvent ''taggd.tag.change'' this) doc
      then (Inr this,
            deliver (popupElement this) (createCancelableTagEvent ''taggd.tag.change'' this) doc)
      else (Inr this,
            deliver (popupElement this) (createTagEvent ''taggd.tag.changed'' this)
              (set_top (popupElement this) (pos_top (getPositionStyle (the_number x) (the_number y)))
                (set_left (popupElement this)
                  (pos_left (getPositionStyle (the_number x) (the_number y)))
                  (deliver (popupElement this)
                    (createCancelableTagEvent ''taggd.tag.change'' this) doc)))))"
  by (simp add: setPosition_def dispatchEvent_def Let_def createCancelableTagEvent_def)

lemma setElementAttributes_eq:
  "setElementAttributes element a doc =
     (if ObjectIs_ofType (default_parameter a (JObject [])) ''object''
      then (case fst (for_in_attributes element
                    (properties (default_parameter a (JObject []))) doc) of
              Inl e \<Rightarrow> Inl e
            | Inr _ \<Rightarrow> Inr element,
            snd (for_in_attributes element (properties (default_parameter a (JObject []))) doc))
      else (Inl (Error (getObjectMessage (default_parameter a (JObject [])))), doc))"
  by (simp add: setElementAttributes_def Let_def split: prod.splits sum.splits)

lemma default_parameter_idem:
  "default_parameter (default_parameter a d) d = default_parameter a d"
  by (cases a; cases d) (simp_all add: default_parameter_def)

lemma setButtonAttributes_eq:
  "setButtonAttributes a this doc =
     (if prevented (buttonElement this) (createCancelableTagEvent ''taggd.tag.change'' this) doc
      then (Inr this,
            deliver (buttonElement this) (createCancelableTagEvent ''taggd.tag.change'' this) doc)
      else if ObjectIs_ofType (default_parameter a (JObject [])) ''object''
      then (case fst (for_in_attributes (buttonElement this)
                    (properties (default_parameter a (JObject [])))
                    (deliver (buttonElement this)
                      (createCancelableTagEvent ''taggd.tag.change'' this) doc)) of
              Inl e \<Rightarrow>
                (Inl e,
                 snd (for_in_attributes (buttonElement this)
                    (properties (default_parameter a (JObject [])))
                    (deliver (buttonElement this)
                      (createCancelableTagEvent ''taggd.tag.change'' this) doc)))
            | Inr _ \<Rightarrow>
                (Inr this,
                 deliver (buttonElement this) (createTagEvent ''taggd.tag.changed'' this)
                   (snd (for_in_attributes (buttonElement this)
                      (properties (default_parameter a (JObject [])))
                      (deliver (buttonElement this)
                        (createCancelableTagEvent ''taggd.tag.change'' this) doc)))))
      else (Inl (Error (getObjectMessage (default_parameter a (JObject [])))),
            deliver (buttonElement this) (createCancelableTagEvent ''taggd.tag.change'' this) doc))"
  by (simp add: setButtonAttributes_def setElementAttributes_eq default_parameter_idem
      dispatchEvent_def Let_def createCancelableTagEvent_def split: sum.splits)

lemma setPopupAttributes_eq:
  "setPopupAttributes a this doc =
     (if prevented (popupElement this) (createCancelableTagEvent ''taggd.tag.change'' this) doc
      then (Inr this,
            deliver (popupElement this) (createCancelableTagEvent ''taggd.tag.change'' this) doc)
      else if ObjectIs_ofType (default_parameter a (JObject [])) ''object''
      then (case fst (for_in_attributes (popupElement this)
                    (properties (default_parameter a (JObject [])))
                    (deliver (popupElement this)
                      (createCancelableTagEvent ''taggd.tag.change'' this) doc)) of
              Inl e \<Rightarrow>
                (Inl e,
                 snd (for_in_attributes (popupElement this)
                    (properties (default_parameter a (JObject [])))
                    (deliver (popupElement this)
                      (createCancelableTagEvent ''taggd.tag.change'' this) doc)))
            | Inr _ \<Rightarrow>
                (Inr this,
                 deliver (popupElement this) (createTagEvent ''taggd.tag.changed'' this)
                   (snd (for_in_attributes (popupElement this)
                      (properties (default_parameter a (JObject [])))
                      (deliver (popupElement this)
                        (createCancelableTagEvent ''taggd.tag.change'' this) doc)))))
      else (Inl (Error (getObjectMessage (default_parameter a (JObject [])))),
            deliver (popupElement this) (createCancelableTagEvent ''taggd.tag.change'' this) doc))"
  by (simp add: setPopupAttributes_def setElementAttributes_eq default_parameter_idem
      dispatchEvent_def Let_def createCancelableTagEvent_def split: sum.splits)

section \<open>Every method leaves the other elements alone\<close>

lemma show_other:
  "r \<noteq> popupElement this \<Longrightarrow> elements (snd (show' this doc)) r = elements doc r"
  by (simp add: show_eq read_simps)

lemma hide_other:
  "r \<noteq> popupElement this \<Longrightarrow> elements (snd (hide this doc)) r = elements doc r"
  by (simp add: hide_eq read_simps)

lemma setText_other:
  "r \<noteq> popupElement this \<Longrightarrow> elements (snd (setText text this doc)) r = elements doc r"
  by (simp add: setText_eq read_simps split: sum.splits)

lemma setPosition_other:
  "r \<noteq> popupElement this \<Longrightarrow> elements (snd (setPosition x y this doc)) r = elements doc r"
  by (simp add: setPosition_eq read_simps)

lemma setElementAttributes_other:
  "r \<noteq> element \<Longrightarrow> elements (snd (setElementAttributes element a doc)) r = elements doc r"
  by (simp add: setElementAttributes_eq for_in_attributes_other)

lemma setPopupAttributes_other:
  "r \<noteq> popupElement this \<Longrightarrow> elements (snd (setPopupAttributes a this doc)) r = elements doc r"
  by (simp add: setPopupAttributes_eq for_in_attributes_other read_simps split: sum.splits)

lemma setButtonAttributes_other:
  "r \<noteq> buttonElement this \<Longrightarrow> elements (snd (setButtonAttributes a this doc)) r = elements doc r"
  by (simp add: setButtonAttributes_eq for_in_attributes_other read_simps split: sum.splits)

section \<open>No method registers or removes a listener\<close>

lemma listeners_deliver:
  "listeners (elements (deliver t ev doc) r) = listeners (elements doc r)"
  by (simp add: deliver_def elements_update_element)

lemma listeners_set_display:
  "listeners (elements (set_display t v doc) r) = listeners (elements doc r)"
  by (simp add: set_display_def elements_update_element)

lemma listeners_set_left:
  "listeners (elements (set_left t v doc) r) = listeners (elements doc r)"
  by (simp add: set_left_def elements_update_element)

lemma listeners_set_top:
  "listeners (elements (set_top t v doc) r) = listeners (elements doc r)"
  by (simp add: set_top_def elements_update_element)

lemma listeners_set_innerHTML:
  "listeners (elements (set_innerHTML t v doc) r) = listeners (elements doc r)"
  by (simp add: set_innerHTML_def elements_update_element)

lemmas listeners_simps =
  listeners_deliver listeners_set_display listeners_set_left listeners_set_top
  listeners_set_innerHTML for_in_attributes_listeners

lemma listeners_show:
  "listeners (elements (snd (show' this doc)) r) = listeners (elements doc r)"
  by (simp add: show_eq listeners_simps)

lemma listeners_hide:
  "listeners (elements (snd (hide this doc)) r) = listeners (elements doc r)"
  by (simp add: hide_eq listeners_simps)

lemma listeners_setText:
  "listeners (elements (snd (setText text this doc)) r) = listeners (elements doc r)"
  by (simp add: setText_eq listeners_simps split: sum.splits)

lemma listeners_setPosition:
  "listeners (elements (snd (setPosition x y this doc)) r) = listeners (elements doc r)"
  by (simp add: setPosition_eq listeners_simps)

lemma listeners_setButtonAttributes:
  "listeners (elements (snd (setButtonAttributes a this doc)) r) = listeners (elements doc r)"
  by (simp add: setButtonAttributes_eq listeners_simps split: sum.splits)

lemma listeners_setPopupAttributes:
  "listeners (elements (snd (setPopupAttributes a this doc)) r) = listeners (elements doc r)"
  by (simp add: setPopupAttributes_eq listeners_simps split: sum.splits)

section \<open>The constructor\<close>

lemma and_then_InrE:
  assumes "and_then r f = (Inr y, d')"
  obtains x d where "r = (Inr x, d)" and "f x d = (Inr y, d')"
  using assms by (auto simp: and_then_def split: prod.splits sum.splits)

lemma hide_unheard:
  assumes "listeners (elements doc (popupElement this)) = []"
  shows "fst (hide this doc) = Inr this" and "hidden (popupElement this) (snd (hide this doc))"
  using assms
  by (simp_all add: hide_eq prevented_def hidden_def deliver_def set_display_def
      elements_update_element)


lemma prevented_unheard:
  "listeners (elements doc t) = [] \<Longrightarrow> \<not> prevented t ev doc"
  by (simp add: prevented_def)

lemma and_then_fst:
  "fst r = Inr x \<Longrightarrow> and_then r f = f x (snd r)"
  by (cases r) (simp add: and_then_def)

lemma new_Tag_chain:
  "new_Tag position text ba pa doc =
     (let t = \<lparr>buttonElement = next_ref doc, popupElement = Suc (next_ref doc)\<rparr>;
          doc2 = snd (createElement ''span'' (snd (createElement ''button'' doc)))
      in and_then (and_then (and_then (and_then
           (setButtonAttributes (default_parameter ba (JObject [])) t doc2)
           (\<lambda>_. setPopupAttributes (default_parameter pa (JObject [])) t))
           (\<lambda>_. setPosition (position_x position) (position_y position) t))
           (\<lambda>_. setText text t))
           (\<lambda>_. hide t))"
  by (simp add: new_Tag_def createElement_def Let_def)

lemma new_Tag_valid_eq:
  assumes ba: "ObjectIs_ofType (default_parameter ba (JObject [])) ''object''"
    and pa: "ObjectIs_ofType (default_parameter pa (JObject [])) ''object''"
    and nb: "list_all (valid_attribute_name doc)
               (map fst (properties (default_parameter ba (JObject []))))"
    and np: "list_all (valid_attribute_name doc)
               (map fst (properties (default_parameter pa (JObject []))))"
    and x: "ObjectIs_number x" and y: "ObjectIs_number y"
  shows "new_Tag \<lparr>position_x = x, position_y = y\<rparr> (JString s) ba pa doc =
           (Inr \<lparr>buttonElement = next_ref doc, popupElement = Suc (next_ref doc)\<rparr>,
            constructed x y s ba pa doc)"
proof -
  define t where "t = \<lparr>buttonElement = next_ref doc, popupElement = Suc (next_ref doc)\<rparr>"
  define doc2 where "doc2 = snd (createElement ''span'' (snd (createElement ''button'' doc)))"
  define r1 where "r1 = setButtonAttributes (default_parameter ba (JObject [])) t doc2"
  define r2 where "r2 = setPopupAttributes (default_parameter pa (JObject [])) t (snd r1)"
  define r3 where "r3 = setPosition x y t (snd r2)"
  define r4 where "r4 = setText (JString s) t (snd r3)"
  have lb: "listeners (elements doc2 (buttonElement t)) = []"
    and lp: "listeners (elements doc2 (popupElement t)) = []"
    by (simp_all add: doc2_def t_def createElement_def new_element_def)
  have host2: "valid_attribute_name doc2 = valid_attribute_name doc"
    by (simp add: doc2_def valid_attribute_name_kept)
  have e1: "r1 = (Inr t, deliver (buttonElement t) (createTagEvent ''taggd.tag.changed'' t)
      (snd (for_in_attributes (buttonElement t) (properties (default_parameter ba (JObject [])))
        (deliver (buttonElement t) (createCancelableTagEvent ''taggd.tag.change'' t) doc2))))"
    unfolding r1_def using lb ba nb
    by (simp add: setButtonAttributes_eq prevented_unheard default_parameter_idem
        for_in_attributes_accepted valid_attribute_name_kept host2)
  have host1: "valid_attribute_name (snd r1) = valid_attribute_name doc"
    by (simp add: e1 valid_attribute_name_kept for_in_attributes_host host2)
  have l1: "listeners (elements (snd r1) (popupElement t)) = []"
    unfolding r1_def using lp by (simp add: listeners_setButtonAttributes)
  have e2: "r2 = (Inr t, deliver (popupElement t) (createTagEvent ''taggd.tag.changed'' t)
      (snd (for_in_attributes (popupElement t) (properties (default_parameter pa (JObject [])))
        (deliver (popupElement t) (createCancelableTagEvent ''taggd.tag.change'' t) (snd r1)))))"
    unfolding r2_def using l1 pa np
    by (simp add: setPopupAttributes_eq prevented_unheard default_parameter_idem
        for_in_attributes_accepted valid_attribute_name_kept host1)
  have l2: "listeners (elements (snd r2) (popupElement t)) = []"
    unfolding r2_def using l1 by (simp add: listeners_setPopupAttributes)
  have e3: "r3 = (Inr t, deliver (popupElement t) (createTagEvent ''taggd.tag.changed'' t)
      (set_top (popupElement t) (pos_top (getPositionStyle (the_number x) (the_number y)))
        (set_left (popupElement t) (pos_left (getPositionStyle (the_number x) (the_number y)))
          (deliver (popupElement t) (createCancelableTagEvent ''taggd.tag.change'' t) (snd r2)))))"
    unfolding r3_def using l2 x y
    by (simp add: setPosition_eq prevented_unheard)
  have l3: "listeners (elements (snd r3) (popupElement t)) = []"
    unfolding r3_def using l2 by (simp add: listeners_setPosition)
  have e4: "r4 = (Inr t, deliver (popupElement t) (createTagEvent ''taggd.tag.changed'' t)
      (set_innerHTML (popupElement t) s
        (deliver (popupElement t) (createCancelableTagEvent ''taggd.tag.change'' t) (snd r3))))"
    unfolding r4_def using l3
    by (simp add: setText_eq prevented_unheard ObjectIs_function_def DOMString_def)
  have l4: "listeners (elements (snd r4) (popupElement t)) = []"
    unfolding r4_def using l3 by (simp add: listeners_setText)
  have f: "fst r1 = Inr t" "fst r2 = Inr t" "fst r3 = Inr t" "fst r4 = Inr t"
    by (simp_all add: e1 e2 e3 e4)
  have "new_Tag \<lparr>position_x = x, position_y = y\<rparr> (JString s) ba pa doc = hide t (snd r4)"
    unfolding new_Tag_chain Let_def
    using f
    by (simp add: and_then_fst r1_def [symmetric] r2_def [symmetric] r3_def [symmetric]
        r4_def [symmetric] t_def [symmetric] doc2_def [symmetric])
  also have "\<dots> = (Inr t, deliver (popupElement t) (createTagEvent ''taggd.tag.hidden'' t)
      (set_display (popupElement t) ''none''
        (deliver (popupElement t) (createCancelableTagEvent ''taggd.tag.hide'' t) (snd r4))))"
    using l4 by (simp add: hide_eq prevented_unheard)
  finally show ?thesis
    by (simp add: e1 e2 e3 e4 constructed_def Let_def t_def doc2_def)
qed

section \<open>The example Tag\<close>

lemma half_finite: "is_finite (dyadic 1 (- 1))" by code_simp
lemma quarter_finite: "is_finite (dyadic 1 (- 2))" by code_simp
lemma half_percent: "Number_toString (Number_multiply (dyadic 1 (- 1)) (dyadic 100 0)) = ''50''"
  by code_simp
lemma quarter_percent: "Number_toString (Number_multiply (dyadic 1 (- 2)) (dyadic 100 0)) = ''25''"
  by code_simp

lemma css_fifty: "css_position_value ''50%''"
  by code_simp

lemma css_twenty_five: "css_position_value ''25%''"
  by code_simp

lemma css_Infinity: "\<not> css_position_value ''Infinity%''"
  by code_simp

lemma example_outcome:
  "createFromObject example_object empty_document =
     (Inr example_tag,
      constructed (JNumber (dyadic 1 (- 1))) (JNumber (dyadic 1 (- 2))) ''hi''
        JUndefined JUndefined empty_document)"
  unfolding createFromObject_def example_object_def
  by (simp add: new_Tag_valid_eq ObjectIs_ofType_def default_parameter_def ObjectIs_number_def
      properties_def half_finite quarter_finite example_tag_def empty_document_def)

lemma example_created:
  "createFromObject example_object empty_document = (Inr example_tag, example_document)"
  by (simp add: example_document_def example_outcome)

lemma example_popup:
  "elements example_document (Suc 0) =
     \<lparr>tagName = ''span'', attributes = Map.empty,
      style = \<lparr>style_display = Assigned ''none'', style_left = Assigned ''50%'',
               style_top = Assigned ''25%''\<rparr>,
      innerHTML = ''hi'', listeners = [],
      dispatched =
        [createCancelableTagEvent ''taggd.tag.change'' example_tag,
         createTagEvent ''taggd.tag.changed'' example_tag,
         createCancelableTagEvent ''taggd.tag.change'' example_tag,
         createTagEvent ''taggd.tag.changed'' example_tag,
         createCancelableTagEvent ''taggd.tag.change'' example_tag,
         createTagEvent ''taggd.tag.changed'' example_tag,
         createCancelableTagEvent ''taggd.tag.hide'' example_tag,
         createTagEvent ''taggd.tag.hidden'' example_tag]\<rparr>"
  unfolding example_document_def example_outcome snd_conv
  by (simp add: constructed_def Let_def read_simps empty_document_def new_element_def
      default_parameter_def properties_def getPositionStyle_def the_number_def
      half_percent quarter_percent css_fifty css_twenty_five example_tag_def)

lemma example_button:
  "elements example_document 0 =
     \<lparr>tagName = ''button'', attributes = Map.empty,
      style = \<lparr>style_display = FromAttribute, style_left = FromAttribute,
               style_top = FromAttribute\<rparr>,
      innerHTML = [], listeners = [],
      dispatched =
        [createCancelableTagEvent ''taggd.tag.change'' example_tag,
         createTagEvent ''taggd.tag.changed'' example_tag]\<rparr>"
  unfolding example_document_def example_outcome snd_conv
  by (simp add: constructed_def Let_def read_simps empty_document_def new_element_def
      default_parameter_def properties_def example_tag_def)

section \<open>Facts about the example documents\<close>

lemma forty_two: "Number_toString (dyadic 42 0) = ''42''" by code_simp


lemma one_finite: "is_finite (dyadic 1 0)" by code_simp

lemma NaN_not_finite: "\<not> is_finite NaN" by code_simp

lemma NaN_percent: "Number_toString (Number_multiply NaN (dyadic 100 0)) = ''NaN''" by code_simp

lemma Infinity_percent: "Number_toString (Number_multiply Infinity (dyadic 100 0)) = ''Infinity''"
  by code_simp

lemma guarded_prevented:
  "prevented 0 (createCancelableTagEvent ''taggd.tag.change'' t) guarded_document"
  "prevented (Suc 0) (createCancelableTagEvent ''taggd.tag.change'' t) guarded_document"
  "prevented (Suc 0) (createCancelableTagEvent ''taggd.tag.show'' t) guarded_document"
  "prevented (Suc 0) (createCancelableTagEvent ''taggd.tag.hide'' t) guarded_document"
  by (simp_all add: prevented_def guarded_document_def veto_all_def read_simps
      createCancelableTagEvent_def)

lemma guarded_popup:
  "elements guarded_document (Suc 0) =
     (elements example_document (Suc 0))
       \<lparr>listeners :=
          [\<lparr>listens_to = ''taggd.tag.change'', prevents = \<lambda>_. True\<rparr>,
           \<lparr>listens_to = ''taggd.tag.hide'', prevents = \<lambda>_. True\<rparr>,
           \<lparr>listens_to = ''taggd.tag.show'', prevents = \<lambda>_. True\<rparr>]\<rparr>"
  by (simp add: guarded_document_def veto_all_def read_simps example_popup)

lemma example_anywhere:
  "createFromObject example_object doc =
     (Inr \<lparr>buttonElement = next_ref doc, popupElement = Suc (next_ref doc)\<rparr>,
      constructed (JNumber (dyadic 1 (- 1))) (JNumber (dyadic 1 (- 2))) ''hi''
        JUndefined JUndefined doc)"
  unfolding createFromObject_def example_object_def
  by (simp add: new_Tag_valid_eq ObjectIs_ofType_def default_parameter_def ObjectIs_number_def
      properties_def half_finite quarter_finite)

lemma example_popup_anywhere:
  "elements (constructed (JNumber (dyadic 1 (- 1))) (JNumber (dyadic 1 (- 2))) ''hi''
        JUndefined JUndefined doc) (Suc (next_ref doc)) =
     \<lparr>tagName = ''span'', attributes = Map.empty,
      style = \<lparr>style_display = Assigned ''none'', style_left = Assigned ''50%'',
               style_top = Assigned ''25%''\<rparr>,
      innerHTML = ''hi'', listeners = [],
      dispatched =
        (let t = \<lparr>buttonElement = next_ref doc, popupElement = Suc (next_ref doc)\<rparr> in
        [createCancelableTagEvent ''taggd.tag.change'' t,
         createTagEvent ''taggd.tag.changed'' t,
         createCancelableTagEvent ''taggd.tag.change'' t,
         createTagEvent ''taggd.tag.changed'' t,
         createCancelableTagEvent ''taggd.tag.change'' t,
         createTagEvent ''taggd.tag.changed'' t,
         createCancelableTagEvent ''taggd.tag.hide'' t,
         createTagEvent ''taggd.tag.hidden'' t])\<rparr>"
  by (simp add: constructed_def Let_def read_simps new_element_def
      default_parameter_def properties_def getPositionStyle_def the_number_def
      half_percent quarter_percent css_fifty css_twenty_five)

lemma big_finite: "is_finite (dyadic 1 1023)"
  by code_simp

lemma big_percent: "Number_toString (Number_multiply (dyadic 1 1023) (dyadic 100 0)) = ''Infinity''"
  by code_simp

lemma constructed_host:
  "valid_attribute_name (constructed x y s ba pa doc) = valid_attribute_name doc"
  by (simp add: constructed_def Let_def valid_attribute_name_kept for_in_attributes_host)

lemma example_host: "valid_attribute_name example_document = xml_name"
  unfolding example_document_def example_outcome snd_conv
  by (simp add: constructed_host empty_document_def)






lemma id_name: "xml_name ''id''"
  by code_simp

lemma guarded_host: "valid_attribute_name guarded_document = xml_name"
  by (simp add: guarded_document_def veto_all_def valid_attribute_name_kept example_host)

lemma id_accepted:
  assumes "valid_attribute_name doc = xml_name"
  shows "fst (for_in_attributes e (properties (JObject [(''id'', v)])) (deliver t ev doc)) = Inr ()"
  by (rule for_in_attributes_accepted)
    (simp add: properties_def valid_attribute_name_kept assms id_name)

section \<open>The claims\<close>

subsection \<open>C1: what \<open>setText\<close> accepts\<close>

text \<open>
  Claim C1 says that \<open>setText\<close> accepts a string or a callable and throws for anything
  else, as \<open>setText(42)\<close>, leaving the markup as it was. The test in \<open>setText\<close> lacks a
  negation: it throws when the text is not a string and is a function. So \<open>setText(42)\<close>
  on the example Tag returns the Tag and replaces the markup \<open>hi\<close> by \<open>42\<close>, and a
  function as text always throws (the \<open>ReferenceError\<close> of the undeclared name \<open>type\<close>),
  before any event.
\<close>

theorem setText_validation_inverted:
  "fst (setText (JNumber (dyadic 42 0)) example_tag example_document) = Inr example_tag \<and>
   innerHTML (elements (snd (setText (JNumber (dyadic 42 0)) example_tag example_document))
     (popupElement example_tag)) = ''42'' \<and>
   innerHTML (elements example_document (popupElement example_tag)) = ''hi'' \<and>
   setText (JFunction src f) this doc = (Inl (ReferenceError ''type''), doc)"
  by (simp add: setText_eq ObjectIs_ofType_def ObjectIs_function_def DOMString_def
      prevented_def example_popup example_tag_def read_simps forty_two)

subsection \<open>C2: when an invalid argument is reported\<close>

text \<open>
  Claim C2 says that for an invalid argument every one of \<open>setText\<close>, \<open>setPosition\<close>,
  \<open>setButtonAttributes\<close>, \<open>setPopupAttributes\<close> and the attribute merge throws before
  anything is changed and before any event is dispatched. Against it: on the example Tag
  \<open>setButtonAttributes('id')\<close> throws the error of the attribute merge, and by then the
  \<open>change\<close> intent has been dispatched on the button.
\<close>

theorem setButtonAttributes_notifies_before_error:
  "fst (setButtonAttributes (JString ''id'') example_tag example_document) =
     Inl (Error (ObjectMessage (JString ''id''))) \<and>
   dispatched (elements (snd (setButtonAttributes (JString ''id'') example_tag example_document))
     (buttonElement example_tag)) =
     dispatched (elements example_document (buttonElement example_tag)) @
       [createCancelableTagEvent ''taggd.tag.change'' example_tag] \<and>
   snd (setButtonAttributes (JString ''id'') example_tag example_document) \<noteq> example_document"
proof -
  let ?r = "setButtonAttributes (JString ''id'') example_tag example_document"
  have 1: "fst ?r = Inl (Error (ObjectMessage (JString ''id'')))"
    by (simp add: setButtonAttributes_eq ObjectIs_ofType_def default_parameter_def
        getObjectMessage_def prevented_def example_button example_tag_def)
  have 2: "dispatched (elements (snd ?r) (buttonElement example_tag)) =
     dispatched (elements example_document (buttonElement example_tag)) @
       [createCancelableTagEvent ''taggd.tag.change'' example_tag]"
    by (simp add: setButtonAttributes_eq ObjectIs_ofType_def default_parameter_def
        getObjectMessage_def prevented_def example_button example_tag_def read_simps)
  from 2 have "snd ?r \<noteq> example_document" by auto
  with 1 2 show ?thesis by simp
qed

text \<open>
  Claim C2, amended. An argument that is not a finite number as a coordinate of
  \<open>setPosition\<close>, or that is given and is not a mapping as the attributes of the attribute
  merge, is reported before anything is changed or dispatched: the document is the one
  the call was given. \<open>setButtonAttributes\<close> and \<open>setPopupAttributes\<close> leave the test to
  the attribute merge, which they call after the intent: the \<open>change\<close> intent is dispatched
  on their surface first; if it is prevented the call returns the Tag and nothing is
  reported, otherwise the error is thrown, and in both cases nothing is written to the
  surface and no \<open>changed\<close> event follows. (\<open>setText\<close> is left to C1.)
\<close>

theorem invalid_argument_order:
  assumes "a \<noteq> JUndefined" and "\<not> is_mapping a"
    and "\<not> ObjectIs_number x \<or> \<not> ObjectIs_number y"
  shows "setPosition x y this doc =
           (Inl (Error (IntegerMessage (if ObjectIs_number x then y else x))), doc) \<and>
         setElementAttributes element a doc = (Inl (Error (ObjectMessage a)), doc) \<and>
         setButtonAttributes a this doc =
           (if prevented (buttonElement this) (createCancelableTagEvent ''taggd.tag.change'' this) doc
            then Inr this else Inl (Error (ObjectMessage a)),
            deliver (buttonElement this) (createCancelableTagEvent ''taggd.tag.change'' this) doc) \<and>
         setPopupAttributes a this doc =
           (if prevented (popupElement this) (createCancelableTagEvent ''taggd.tag.change'' this) doc
            then Inr this else Inl (Error (ObjectMessage a)),
            deliver (popupElement this) (createCancelableTagEvent ''taggd.tag.change'' this) doc)"
proof -
  from assms(1,2) have d: "default_parameter a (JObject []) = a"
    and n: "\<not> ObjectIs_ofType a ''object''"
    by (cases a; simp add: default_parameter_def ObjectIs_ofType_def is_mapping_def)+
  show ?thesis
    using assms(3)
    by (auto simp: setPosition_eq setElementAttributes_eq setButtonAttributes_eq
        setPopupAttributes_eq d n getIntegerMessage_def getObjectMessage_def)
qed

text \<open>
  Claim C2 as amended, witness: \<open>setPosition('a', 1)\<close> and the attribute merge with
  \<open>'id'\<close> leave the example document as it was; \<open>setButtonAttributes('id')\<close> where every
  intent is prevented returns the Tag; \<open>setPopupAttributes('id')\<close> where none is throws
  after the intent.
\<close>

theorem invalid_argument_order_witness:
  "JString ''id'' \<noteq> JUndefined \<and> \<not> is_mapping (JString ''id'') \<and>
   \<not> ObjectIs_number (JString ''a'') \<and>
   setPosition (JString ''a'') (JNumber (dyadic 1 0)) example_tag example_document =
     (Inl (Error (IntegerMessage (JString ''a''))), example_document) \<and>
   setElementAttributes 0 (JString ''id'') example_document =
     (Inl (Error (ObjectMessage (JString ''id''))), example_document) \<and>
   setButtonAttributes (JString ''id'') example_tag guarded_document =
     (Inr example_tag,
      deliver 0 (createCancelableTagEvent ''taggd.tag.change'' example_tag) guarded_document) \<and>
   setPopupAttributes (JString ''id'') example_tag example_document =
     (Inl (Error (ObjectMessage (JString ''id''))),
      deliver (Suc 0) (createCancelableTagEvent ''taggd.tag.change'' example_tag) example_document)"
  using invalid_argument_order [of "JString ''id''" "JString ''a''" "JNumber (dyadic 1 0)"
      example_tag example_document 0]
    invalid_argument_order [of "JString ''id''" "JString ''a''" "JNumber (dyadic 1 0)"
      example_tag guarded_document 0]
  by (simp add: is_mapping_def ObjectIs_number_def prevented_def example_popup example_button
      example_tag_def guarded_document_def veto_all_def read_simps createCancelableTagEvent_def)

subsection \<open>C3: the attribute merge\<close>




subsection \<open>C4: a prevented intent\<close>

text \<open>
  Claim C4. When a listener prevents the intent of \<open>show\<close>, \<open>hide\<close>, \<open>setText\<close>,
  \<open>setPosition\<close>, \<open>setPopupAttributes\<close> or \<open>setButtonAttributes\<close> (the intent of
  \<open>setText\<close> and \<open>setPosition\<close> is dispatched once the argument has passed their test),
  the call returns the Tag, and the document it leaves is the one it was given with the
  intent delivered: nothing is written to the surface and no second event is dispatched.
\<close>

theorem veto_suppresses_mutation:
  "(prevented (popupElement this) (createCancelableTagEvent ''taggd.tag.show'' this) doc \<longrightarrow>
      show' this doc =
        (Inr this,
         deliver (popupElement this) (createCancelableTagEvent ''taggd.tag.show'' this) doc)) \<and>
   (prevented (popupElement this) (createCancelableTagEvent ''taggd.tag.hide'' this) doc \<longrightarrow>
      hide this doc =
        (Inr this,
         deliver (popupElement this) (createCancelableTagEvent ''taggd.tag.hide'' this) doc)) \<and>
   (prevented (popupElement this) (createCancelableTagEvent ''taggd.tag.change'' this) doc \<longrightarrow>
      (ObjectIs_ofType text ''string'' \<or> \<not> ObjectIs_function text \<longrightarrow>
         setText text this doc =
           (Inr this,
            deliver (popupElement this) (createCancelableTagEvent ''taggd.tag.change'' this) doc)) \<and>
      (ObjectIs_number x \<and> ObjectIs_number y \<longrightarrow>
         setPosition x y this doc =
           (Inr this,
            deliver (popupElement this) (createCancelableTagEvent ''taggd.tag.change'' this) doc)) \<and>
      setPopupAttributes a this doc =
        (Inr this,
         deliver (popupElement this) (createCancelableTagEvent ''taggd.tag.change'' this) doc)) \<and>
   (prevented (buttonElement this) (createCancelableTagEvent ''taggd.tag.change'' this) doc \<longrightarrow>
      setButtonAttributes a this doc =
        (Inr this,
         deliver (buttonElement this) (createCancelableTagEvent ''taggd.tag.change'' this) doc))"
  by (simp add: show_eq hide_eq setText_eq setPosition_eq setPopupAttributes_eq
      setButtonAttributes_eq)

text \<open>
  Claim C4, witness: on the example Tag with listeners that prevent every intent, each of
  the six calls returns the Tag and only delivers its intent; after \<open>show\<close> the popup is
  still hidden at \<open>50%\<close>, \<open>25%\<close>, after \<open>setText('new')\<close> its markup is still \<open>hi\<close>.
\<close>

theorem veto_suppresses_mutation_witness:
  "prevented (popupElement example_tag)
     (createCancelableTagEvent ''taggd.tag.show'' example_tag) guarded_document \<and>
   prevented (popupElement example_tag)
     (createCancelableTagEvent ''taggd.tag.hide'' example_tag) guarded_document \<and>
   prevented (popupElement example_tag)
     (createCancelableTagEvent ''taggd.tag.change'' example_tag) guarded_document \<and>
   prevented (buttonElement example_tag)
     (createCancelableTagEvent ''taggd.tag.change'' example_tag) guarded_document \<and>
   ObjectIs_number (JNumber (dyadic 1 0)) \<and>
   show' example_tag guarded_document =
     (Inr example_tag,
      deliver (Suc 0) (createCancelableTagEvent ''taggd.tag.show'' example_tag) guarded_document) \<and>
   hide example_tag guarded_document =
     (Inr example_tag,
      deliver (Suc 0) (createCancelableTagEvent ''taggd.tag.hide'' example_tag) guarded_document) \<and>
   setText (JString ''new'') example_tag guarded_document =
     (Inr example_tag,
      deliver (Suc 0) (createCancelableTagEvent ''taggd.tag.change'' example_tag) guarded_document) \<and>
   setPosition (JNumber (dyadic 1 0)) (JNumber (dyadic 1 0)) example_tag guarded_document =
     (Inr example_tag,
      deliver (Suc 0) (createCancelableTagEvent ''taggd.tag.change'' example_tag) guarded_document) \<and>
   setPopupAttributes (JObject [(''id'', ''p'')]) example_tag guarded_document =
     (Inr example_tag,
      deliver (Suc 0) (createCancelableTagEvent ''taggd.tag.change'' example_tag) guarded_document) \<and>
   setButtonAttributes (JObject [(''id'', ''b'')]) example_tag guarded_document =
     (Inr example_tag,
      deliver 0 (createCancelableTagEvent ''taggd.tag.change'' example_tag) guarded_document) \<and>
   style (elements (snd (show' example_tag guarded_document)) (Suc 0)) =
     \<lparr>style_display = Assigned ''none'', style_left = Assigned ''50%'',
      style_top = Assigned ''25%''\<rparr> \<and>
   innerHTML (elements (snd (setText (JString ''new'') example_tag guarded_document)) (Suc 0)) =
     ''hi'' \<and>
   dispatched (elements (snd (show' example_tag guarded_document)) (Suc 0)) =
     dispatched (elements guarded_document (Suc 0)) @
       [createCancelableTagEvent ''taggd.tag.show'' example_tag]"
  using veto_suppresses_mutation
      [of example_tag guarded_document "JString ''new''" "JNumber (dyadic 1 0)"
          "JNumber (dyadic 1 0)" "JObject [(''id'', ''p'')]"]
    veto_suppresses_mutation
      [of example_tag guarded_document "JString ''new''" "JNumber (dyadic 1 0)"
          "JNumber (dyadic 1 0)" "JObject [(''id'', ''b'')]"]
    guarded_prevented [of example_tag]
  by (simp add: example_tag_def ObjectIs_ofType_def ObjectIs_number_def one_finite
      read_simps guarded_popup example_popup)

subsection \<open>C5: \<open>setPosition\<close>\<close>

text \<open>
  Claim C5 says that for finite coordinates and an intent that is not prevented
  \<open>setPosition(x, y)\<close> leaves \<open>left\<close> equal to the String of \<open>x * 100\<close> followed by \<open>%\<close>,
  and that the error for a coordinate that is no finite number names the coordinate.
  Against it: \<open>2 ^ 1023\<close> is a finite Number and its product with 100 is \<open>Infinity\<close>, so
  on the example Tag \<open>setPosition(2 ** 1023, 0.5)\<close> returns the Tag, assigns \<open>Infinity%\<close>,
  which is no CSS value, and \<open>left\<close> stays at \<open>50%\<close>. And \<open>setPosition(NaN, 1)\<close> throws
  the same error as \<open>setPosition(1, NaN)\<close>: the message is made from the value alone.
\<close>

theorem setPosition_overflow_dropped:
  "ObjectIs_number (JNumber (dyadic 1 1023)) \<and> ObjectIs_number (JNumber (dyadic 1 (- 1))) \<and>
   \<not> prevented (popupElement example_tag)
       (createCancelableTagEvent ''taggd.tag.change'' example_tag) example_document \<and>
   fst (setPosition (JNumber (dyadic 1 1023)) (JNumber (dyadic 1 (- 1))) example_tag
     example_document) = Inr example_tag \<and>
   Number_toString (Number_multiply (dyadic 1 1023) (dyadic 100 0)) @ ''%'' = ''Infinity%'' \<and>
   style_left (style (elements
     (snd (setPosition (JNumber (dyadic 1 1023)) (JNumber (dyadic 1 (- 1))) example_tag
        example_document)) (popupElement example_tag))) = Assigned ''50%'' \<and>
   fst (setPosition (JNumber NaN) (JNumber (dyadic 1 0)) example_tag example_document) =
     Inl (Error (IntegerMessage (JNumber NaN))) \<and>
   fst (setPosition (JNumber (dyadic 1 0)) (JNumber NaN) example_tag example_document) =
     Inl (Error (IntegerMessage (JNumber NaN)))"
  by (simp add: setPosition_eq ObjectIs_number_def big_finite half_finite one_finite
      NaN_not_finite getIntegerMessage_def prevented_def example_popup example_tag_def
      the_number_def getPositionStyle_def big_percent half_percent css_Infinity css_fifty
      read_simps)

text \<open>
  Claim C5, amended. \<open>setPosition(x, y)\<close> throws an invalid-argument error when \<open>x\<close> is
  not a finite number, and when \<open>x\<close> is one and \<open>y\<close> is not, the document unchanged; the
  error is made by \<open>TypeErrorMessage.getIntegerMessage\<close> from the value of the coordinate
  at fault and does not tell which coordinate that was. For finite numbers and an intent
  that no listener prevents it returns the Tag and assigns the String of \<open>x * 100\<close>
  followed by \<open>%\<close> to the popup's \<open>left\<close> and the String of \<open>y * 100\<close> followed by \<open>%\<close>
  to its \<open>top\<close>; each property takes the string assigned when that is a CSS value, and
  keeps what it had when it is not, as when the product is \<open>Infinity\<close>.
\<close>

theorem setPosition_spec:
  "(\<not> ObjectIs_number x \<longrightarrow>
      setPosition x y this doc = (Inl (Error (IntegerMessage x)), doc)) \<and>
   (ObjectIs_number x \<and> \<not> ObjectIs_number y \<longrightarrow>
      setPosition x y this doc = (Inl (Error (IntegerMessage y)), doc)) \<and>
   (is_finite a \<and> is_finite b \<and>
    \<not> prevented (popupElement this) (createCancelableTagEvent ''taggd.tag.change'' this) doc \<longrightarrow>
      fst (setPosition (JNumber a) (JNumber b) this doc) = Inr this \<and>
      style_left (style (elements (snd (setPosition (JNumber a) (JNumber b) this doc))
        (popupElement this))) =
        (if css_position_value (Number_toString (Number_multiply a (dyadic 100 0)) @ ''%'')
         then Assigned (Number_toString (Number_multiply a (dyadic 100 0)) @ ''%'')
         else style_left (style (elements doc (popupElement this)))) \<and>
      style_top (style (elements (snd (setPosition (JNumber a) (JNumber b) this doc))
        (popupElement this))) =
        (if css_position_value (Number_toString (Number_multiply b (dyadic 100 0)) @ ''%'')
         then Assigned (Number_toString (Number_multiply b (dyadic 100 0)) @ ''%'')
         else style_top (style (elements doc (popupElement this))))) \<and>
   ObjectIs_number (JNumber a) = is_finite a \<and>
   \<not> ObjectIs_number (JString s) \<and>
   \<not> css_position_value ''Infinity%''"
proof -
  have 1: "\<not> ObjectIs_number x \<longrightarrow>
      setPosition x y this doc = (Inl (Error (IntegerMessage x)), doc)"
    by (simp add: setPosition_eq getIntegerMessage_def)
  have 2: "ObjectIs_number x \<and> \<not> ObjectIs_number y \<longrightarrow>
      setPosition x y this doc = (Inl (Error (IntegerMessage y)), doc)"
    by (simp add: setPosition_eq getIntegerMessage_def)
  have 3: "is_finite a \<and> is_finite b \<and>
    \<not> prevented (popupElement this) (createCancelableTagEvent ''taggd.tag.change'' this) doc \<longrightarrow>
      fst (setPosition (JNumber a) (JNumber b) this doc) = Inr this \<and>
      style_left (style (elements (snd (setPosition (JNumber a) (JNumber b) this doc))
        (popupElement this))) =
        (if css_position_value (Number_toString (Number_multiply a (dyadic 100 0)) @ ''%'')
         then Assigned (Number_toString (Number_multiply a (dyadic 100 0)) @ ''%'')
         else style_left (style (elements doc (popupElement this)))) \<and>
      style_top (style (elements (snd (setPosition (JNumber a) (JNumber b) this doc))
        (popupElement this))) =
        (if css_position_value (Number_toString (Number_multiply b (dyadic 100 0)) @ ''%'')
         then Assigned (Number_toString (Number_multiply b (dyadic 100 0)) @ ''%'')
         else style_top (style (elements doc (popupElement this))))"
    by (simp add: setPosition_eq ObjectIs_number_def the_number_def getPositionStyle_def
        read_simps)
  have 4: "ObjectIs_number (JNumber a) = is_finite a"
    by (simp add: ObjectIs_number_def)
  have 5: "\<not> ObjectIs_number (JString s)"
    by (simp add: ObjectIs_number_def)
  from 1 2 3 4 5 css_Infinity show ?thesis by blast
qed

text \<open>
  Claim C5 as amended, witness: \<open>setPosition('a', 1)\<close> and \<open>setPosition(1, NaN)\<close> throw
  with the value at fault; \<open>setPosition(0.25, 0.5)\<close> on the example Tag leaves \<open>left\<close> at
  \<open>25%\<close> and \<open>top\<close> at \<open>50%\<close>; \<open>setPosition(0.25, 2 ** 1023)\<close> leaves \<open>top\<close> at the
  \<open>25%\<close> it had.
\<close>

theorem setPosition_spec_witness:
  "\<not> ObjectIs_number (JString ''a'') \<and>
   setPosition (JString ''a'') (JNumber (dyadic 1 0)) example_tag example_document =
     (Inl (Error (IntegerMessage (JString ''a''))), example_document) \<and>
   ObjectIs_number (JNumber (dyadic 1 0)) \<and> \<not> ObjectIs_number (JNumber NaN) \<and>
   setPosition (JNumber (dyadic 1 0)) (JNumber NaN) example_tag example_document =
     (Inl (Error (IntegerMessage (JNumber NaN))), example_document) \<and>
   is_finite (dyadic 1 (- 2)) \<and> is_finite (dyadic 1 (- 1)) \<and> is_finite (dyadic 1 1023) \<and>
   \<not> prevented (popupElement example_tag)
       (createCancelableTagEvent ''taggd.tag.change'' example_tag) example_document \<and>
   fst (setPosition (JNumber (dyadic 1 (- 2))) (JNumber (dyadic 1 (- 1))) example_tag
     example_document) = Inr example_tag \<and>
   style_left (style (elements
     (snd (setPosition (JNumber (dyadic 1 (- 2))) (JNumber (dyadic 1 (- 1))) example_tag
        example_document)) (popupElement example_tag))) = Assigned ''25%'' \<and>
   style_top (style (elements
     (snd (setPosition (JNumber (dyadic 1 (- 2))) (JNumber (dyadic 1 (- 1))) example_tag
        example_document)) (popupElement example_tag))) = Assigned ''50%'' \<and>
   style_top (style (elements
     (snd (setPosition (JNumber (dyadic 1 (- 2))) (JNumber (dyadic 1 1023)) example_tag
        example_document)) (popupElement example_tag))) = Assigned ''25%''"
  using setPosition_spec [of "JString ''a''" "JNumber (dyadic 1 0)" example_tag example_document
      "dyadic 1 (- 2)" "dyadic 1 (- 1)" "''a''"]
    setPosition_spec [of "JNumber (dyadic 1 0)" "JNumber NaN" example_tag example_document
      "dyadic 1 (- 2)" "dyadic 1 1023" "''a''"]
  by (simp add: ObjectIs_number_def one_finite NaN_not_finite half_finite quarter_finite
      big_finite half_percent quarter_percent big_percent css_fifty css_twenty_five
      css_Infinity prevented_def example_popup example_tag_def)

subsection \<open>C6: a constructed Tag starts hidden\<close>

text \<open>
  Claim C6. Whatever the position, the text and the attribute maps are, a Tag that the
  constructor has returned has its content surface hidden: the inline \<open>display\<close> of the
  popup element is \<open>none\<close>. The elements are created by the constructor itself, so no
  listener can prevent the \<open>hide\<close> it ends with. (A construction that throws returns
  no Tag; \<open>new_Tag_valid_eq\<close> above shows that one with finite coordinates, a string as
  text and, as attributes, nothing or mappings of names the host accepts does not throw.)
\<close>

theorem new_Tag_hidden:
  assumes "new_Tag position text buttonAttributes popupAttributes doc = (Inr this, doc')"
  shows "hidden (popupElement this) doc'"
proof -
  define b where "b = next_ref doc"
  define t where "t = \<lparr>buttonElement = b, popupElement = Suc b\<rparr>"
  define doc2 where "doc2 = snd (createElement ''span'' (snd (createElement ''button'' doc)))"
  have fresh: "listeners (elements doc2 (popupElement t)) = []"
    by (simp add: doc2_def t_def b_def createElement_def new_element_def)
  from assms obtain d4 where d4: "hide t d4 = (Inr this, doc')"
    and quiet: "listeners (elements d4 (popupElement t)) = listeners (elements doc2 (popupElement t))"
  proof -
    from assms have "and_then (and_then (and_then (and_then
           (setButtonAttributes (default_parameter buttonAttributes (JObject [])) t doc2)
           (\<lambda>_. setPopupAttributes (default_parameter popupAttributes (JObject [])) t))
           (\<lambda>_. setPosition (position_x position) (position_y position) t))
           (\<lambda>_. setText text t))
           (\<lambda>_. hide t) = (Inr this, doc')"
      by (simp add: new_Tag_def createElement_def Let_def t_def b_def doc2_def)
    then obtain x4 d4 where s4: "and_then (and_then (and_then
           (setButtonAttributes (default_parameter buttonAttributes (JObject [])) t doc2)
           (\<lambda>_. setPopupAttributes (default_parameter popupAttributes (JObject [])) t))
           (\<lambda>_. setPosition (position_x position) (position_y position) t))
           (\<lambda>_. setText text t) = (Inr x4, d4)" and h: "hide t d4 = (Inr this, doc')"
      by (rule and_then_InrE)
    from s4 obtain x3 d3 where s3: "and_then (and_then
           (setButtonAttributes (default_parameter buttonAttributes (JObject [])) t doc2)
           (\<lambda>_. setPopupAttributes (default_parameter popupAttributes (JObject [])) t))
           (\<lambda>_. setPosition (position_x position) (position_y position) t) = (Inr x3, d3)"
      and e4: "setText text t d3 = (Inr x4, d4)"
      by (rule and_then_InrE)
    from s3 obtain x2 d2 where s2: "and_then
           (setButtonAttributes (default_parameter buttonAttributes (JObject [])) t doc2)
           (\<lambda>_. setPopupAttributes (default_parameter popupAttributes (JObject [])) t) = (Inr x2, d2)"
      and e3: "setPosition (position_x position) (position_y position) t d2 = (Inr x3, d3)"
      by (rule and_then_InrE)
    from s2 obtain x1 d1 where
      e1: "setButtonAttributes (default_parameter buttonAttributes (JObject [])) t doc2 = (Inr x1, d1)"
      and e2: "setPopupAttributes (default_parameter popupAttributes (JObject [])) t d1 = (Inr x2, d2)"
      by (rule and_then_InrE)
    have "listeners (elements d1 (popupElement t)) = listeners (elements doc2 (popupElement t))"
      using listeners_setButtonAttributes
        [of "default_parameter buttonAttributes (JObject [])" t doc2 "popupElement t"]
      by (simp add: e1)
    moreover have "listeners (elements d2 (popupElement t)) = listeners (elements d1 (popupElement t))"
      using listeners_setPopupAttributes
        [of "default_parameter popupAttributes (JObject [])" t d1 "popupElement t"]
      by (simp add: e2)
    moreover have "listeners (elements d3 (popupElement t)) = listeners (elements d2 (popupElement t))"
      using listeners_setPosition
        [of "position_x position" "position_y position" t d2 "popupElement t"]
      by (simp add: e3)
    moreover have "listeners (elements d4 (popupElement t)) = listeners (elements d3 (popupElement t))"
      using listeners_setText [of "text" t d3 "popupElement t"]
      by (simp add: e4)
    ultimately have "listeners (elements d4 (popupElement t)) = listeners (elements doc2 (popupElement t))"
      by simp
    with h that show thesis by blast
  qed
  from quiet fresh have "listeners (elements d4 (popupElement t)) = []" by simp
  from hide_unheard [OF this] d4 show ?thesis by simp
qed

text \<open>
  Claim C6, witness: the construction of the example Tag returns it, and its popup is
  hidden.
\<close>

theorem new_Tag_hidden_witness:
  "new_Tag (obj_position example_object) (obj_text example_object)
     (obj_buttonAttributes example_object) (obj_popupAttributes example_object) empty_document =
     (Inr example_tag, example_document) \<and>
   hidden (popupElement example_tag) example_document"
  using new_Tag_hidden [of "obj_position example_object" "obj_text example_object"
      "obj_buttonAttributes example_object" "obj_popupAttributes example_object"
      empty_document example_tag example_document]
    example_created
  by (simp add: createFromObject_def)

subsection \<open>C7: \<open>getPositionStyle\<close>\<close>

text \<open>
  Claim C7. \<open>Tag.getPositionStyle(x, y)\<close> is the pair of \<open>left\<close>, the String of
  \<open>x * 100\<close> followed by \<open>%\<close>, and \<open>top\<close>, the String of \<open>y * 100\<close> followed by \<open>%\<close>.
  It depends on its two arguments only and tests neither: \<open>0.5\<close> and \<open>0.25\<close> give
  \<open>50%\<close> and \<open>25%\<close>, and \<open>NaN\<close> and \<open>Infinity\<close>, which \<open>setPosition\<close> refuses, give
  \<open>NaN%\<close> and \<open>Infinity%\<close>.
\<close>

theorem getPositionStyle_spec:
  "getPositionStyle x y =
     \<lparr>pos_left = Number_toString (Number_multiply x (dyadic 100 0)) @ ''%'',
      pos_top = Number_toString (Number_multiply y (dyadic 100 0)) @ ''%''\<rparr> \<and>
   getPositionStyle (dyadic 1 (- 1)) (dyadic 1 (- 2)) = \<lparr>pos_left = ''50%'', pos_top = ''25%''\<rparr> \<and>
   getPositionStyle NaN Infinity = \<lparr>pos_left = ''NaN%'', pos_top = ''Infinity%''\<rparr>"
  by (simp add: getPositionStyle_def half_percent quarter_percent NaN_percent Infinity_percent)

subsection \<open>C8: \<open>createFromObject\<close>\<close>

text \<open>
  Claim C8. \<open>Tag.createFromObject(object)\<close> is \<open>new Tag\<close> applied to the four fields of
  the object in the order position, text, button attributes, popup attributes, and
  nothing else. For \<open>{position: {x: 0.5, y: 0.25}, text: 'hi'}\<close>, in any document, it
  returns a Tag of two new elements, and after \<open>show\<close> the popup has \<open>left\<close> \<open>50%\<close>,
  \<open>top\<close> \<open>25%\<close>, markup \<open>hi\<close> and no \<open>display\<close> override.
\<close>

theorem createFromObject_spec:
  "createFromObject object doc =
     new_Tag (obj_position object) (obj_text object)
       (obj_buttonAttributes object) (obj_popupAttributes object) doc \<and>
   fst (and_then (createFromObject example_object doc) show') =
     Inr \<lparr>buttonElement = next_ref doc, popupElement = Suc (next_ref doc)\<rparr> \<and>
   style (elements (snd (and_then (createFromObject example_object doc) show'))
     (Suc (next_ref doc))) =
     \<lparr>style_display = Assigned [], style_left = Assigned ''50%'',
      style_top = Assigned ''25%''\<rparr> \<and>
   innerHTML (elements (snd (and_then (createFromObject example_object doc) show'))
     (Suc (next_ref doc))) = ''hi''"
proof -
  have "and_then (createFromObject example_object doc) show' =
      show' \<lparr>buttonElement = next_ref doc, popupElement = Suc (next_ref doc)\<rparr>
        (constructed (JNumber (dyadic 1 (- 1))) (JNumber (dyadic 1 (- 2))) ''hi''
          JUndefined JUndefined doc)"
    by (simp add: example_anywhere and_then_def)
  then show ?thesis
    by (simp add: createFromObject_def show_eq prevented_def read_simps example_popup_anywhere)
qed

subsection \<open>C9: every operation returns the Tag\<close>

text \<open>
  Claim C9. \<open>show\<close> and \<open>hide\<close> always return the Tag they were called on; \<open>setText\<close>,
  \<open>setPosition\<close>, \<open>setButtonAttributes\<close> and \<open>setPopupAttributes\<close> return it whenever
  they return, whether a listener prevented the intent or not.
\<close>

theorem operations_return_this:
  "fst (show' this doc) = Inr this \<and>
   fst (hide this doc) = Inr this \<and>
   (fst (setText text this doc) = Inr t \<longrightarrow> t = this) \<and>
   (fst (setPosition x y this doc) = Inr t \<longrightarrow> t = this) \<and>
   (fst (setButtonAttributes a this doc) = Inr t \<longrightarrow> t = this) \<and>
   (fst (setPopupAttributes a this doc) = Inr t \<longrightarrow> t = this)"
  by (auto simp: show_eq hide_eq setText_eq setPosition_eq setButtonAttributes_eq
      setPopupAttributes_eq split: if_splits sum.splits)

text \<open>
  Claim C9, witness: on the example Tag, with no listener and with listeners that prevent
  every intent, the calls return the Tag.
\<close>

theorem operations_return_this_witness:
  "fst (show' example_tag example_document) = Inr example_tag \<and>
   fst (hide example_tag guarded_document) = Inr example_tag \<and>
   fst (setText (JString ''new'') example_tag example_document) = Inr example_tag \<and>
   fst (setText (JString ''new'') example_tag guarded_document) = Inr example_tag \<and>
   fst (setPosition (JNumber (dyadic 1 0)) (JNumber (dyadic 1 0)) example_tag example_document) =
     Inr example_tag \<and>
   fst (setPosition (JNumber (dyadic 1 0)) (JNumber (dyadic 1 0)) example_tag guarded_document) =
     Inr example_tag \<and>
   fst (setButtonAttributes (JObject [(''id'', ''b'')]) example_tag example_document) =
     Inr example_tag \<and>
   fst (setButtonAttributes (JObject [(''id'', ''b'')]) example_tag guarded_document) =
     Inr example_tag \<and>
   fst (setPopupAttributes (JObject [(''id'', ''p'')]) example_tag example_document) =
     Inr example_tag \<and>
   fst (setPopupAttributes (JObject [(''id'', ''p'')]) example_tag guarded_document) =
     Inr example_tag"
  using operations_return_this [of example_tag example_document "JString ''new''" example_tag
      "JNumber (dyadic 1 0)" "JNumber (dyadic 1 0)" "JObject [(''id'', ''b'')]"]
    operations_return_this [of example_tag guarded_document "JString ''new''" example_tag
      "JNumber (dyadic 1 0)" "JNumber (dyadic 1 0)" "JObject [(''id'', ''p'')]"]
  by (simp add: show_eq hide_eq setText_eq setPosition_eq setButtonAttributes_eq
      setPopupAttributes_eq ObjectIs_ofType_def ObjectIs_function_def ObjectIs_number_def
      DOMString_def default_parameter_def one_finite
      id_accepted [OF example_host] id_accepted [OF guarded_host])

subsection \<open>C10: an operation touches its own surface only\<close>

text \<open>
  Claim C10. \<open>show\<close>, \<open>hide\<close>, \<open>setText\<close>, \<open>setPosition\<close> and \<open>setPopupAttributes\<close>
  leave every element other than the popup as it was, and \<open>setButtonAttributes\<close> every
  element other than the button, whether they return or throw: attributes, style, markup,
  listeners and the events dispatched on it are the same. For a Tag whose two elements
  differ, as those of a constructed Tag do, the other surface is such an element.
\<close>

theorem operations_touch_own_surface:
  assumes "r \<noteq> popupElement this" and "r' \<noteq> buttonElement this"
  shows "elements (snd (show' this doc)) r = elements doc r \<and>
         elements (snd (hide this doc)) r = elements doc r \<and>
         elements (snd (setText text this doc)) r = elements doc r \<and>
         elements (snd (setPosition x y this doc)) r = elements doc r \<and>
         elements (snd (setPopupAttributes a this doc)) r = elements doc r \<and>
         elements (snd (setButtonAttributes a this doc)) r' = elements doc r'"
  using assms
  by (simp add: show_other hide_other setText_other setPosition_other setPopupAttributes_other
      setButtonAttributes_other)

text \<open>
  Claim C10, witness: on the example Tag the button is unchanged by the five operations
  of the popup, and the popup by \<open>setButtonAttributes\<close>.
\<close>

theorem operations_touch_own_surface_witness:
  "buttonElement example_tag \<noteq> popupElement example_tag \<and>
   elements (snd (show' example_tag example_document)) (buttonElement example_tag) =
     elements example_document (buttonElement example_tag) \<and>
   elements (snd (hide example_tag example_document)) (buttonElement example_tag) =
     elements example_document (buttonElement example_tag) \<and>
   elements (snd (setText (JString ''new'') example_tag example_document))
     (buttonElement example_tag) = elements example_document (buttonElement example_tag) \<and>
   elements (snd (setPosition (JNumber (dyadic 1 0)) (JNumber (dyadic 1 0)) example_tag
     example_document)) (buttonElement example_tag) =
     elements example_document (buttonElement example_tag) \<and>
   elements (snd (setPopupAttributes (JObject [(''id'', ''p'')]) example_tag example_document))
     (buttonElement example_tag) = elements example_document (buttonElement example_tag) \<and>
   elements (snd (setButtonAttributes (JObject [(''id'', ''p'')]) example_tag example_document))
     (popupElement example_tag) = elements example_document (popupElement example_tag)"
  using operations_touch_own_surface [of "buttonElement example_tag" example_tag
      "popupElement example_tag" example_document "JString ''new''" "JNumber (dyadic 1 0)"
      "JNumber (dyadic 1 0)" "JObject [(''id'', ''p'')]"]
  by (simp add: example_tag_def)

end
